theory Spec2Isabelle
  imports Complex_Main "HOL-Library.Sublist"
begin

section \<open>JavaScript values and exceptions\<close>

text \<open>
  The service handles untyped JSON: the body of the HTTP response, and the text the model
  wrote, parsed with \<^verbatim>\<open>JSON.parse\<close>. A value is one of the JavaScript kinds below. An
  object is the list of its own properties (first binding of a key wins). An array carries
  its elements and, second, the named properties that an assignment such as
  \<^verbatim>\<open>result.symptoms = ...\<close> adds to it. Numbers are integers: the code only tests a number
  for zero. Strings are byte strings: the code only tests them for emptiness and for a
  substring.
\<close>

datatype js_val =
    JUndefined
  | JNull
  | JBool bool
  | JNum int
  | JStr string
  | JArr "js_val list" "(string \<times> js_val) list"
  | JObj "(string \<times> js_val) list"

text \<open>
  What a \<^verbatim>\<open>throw\<close> carries. Everything thrown by the browser (\<^verbatim>\<open>fetch\<close>, reading a body,
  \<^verbatim>\<open>JSON.parse\<close>, a property read on \<^verbatim>\<open>null\<close>) and every \<^verbatim>\<open>new Error(...)\<close> of the
  source is an error object with a message. \<^verbatim>\<open>throw lastError\<close> can also throw the initial
  value of \<^verbatim>\<open>lastError\<close>, which is \<^verbatim>\<open>null\<close>.
\<close>

datatype js_exn = ThrownNull | ErrorObj string

text \<open>A computation that may throw: \<open>Inl\<close> is the thrown value.\<close>

type_synonym 'a result = "js_exn + 'a"

definition bind :: "'a result \<Rightarrow> ('a \<Rightarrow> 'b result) \<Rightarrow> 'b result" where
  "bind m f = (case m of Inl e \<Rightarrow> Inl e | Inr v \<Rightarrow> f v)"

subsection \<open>Strings\<close>

text \<open>\<^verbatim>\<open>s.includes(t)\<close>: \<open>t\<close> occurs in \<open>s\<close> as a contiguous substring.\<close>

primrec includesStr :: "string \<Rightarrow> string \<Rightarrow> bool" where
  "includesStr [] t = (t = [])"
| "includesStr (c # s) t = (prefix t (c # s) \<or> includesStr s t)"

text \<open>\<^verbatim>\<open>s.startsWith(t)\<close>.\<close>

definition startsWith :: "string \<Rightarrow> string \<Rightarrow> bool" where
  "startsWith s t = prefix t s"

text \<open>The decimal digits of a number, as a template literal \<^verbatim>\<open>${n}\<close> prints them.\<close>

definition digit :: "nat \<Rightarrow> char" where
  "digit d = ''0123456789'' ! d"

fun show_nat :: "nat \<Rightarrow> string" where
  "show_nat n = (if n < 10 then [digit n] else show_nat (n div 10) @ [digit (n mod 10)])"

declare show_nat.simps [simp del]

subsection \<open>Property access\<close>

text \<open>
  \<^verbatim>\<open>!v\<close>: the falsy values are \<^verbatim>\<open>undefined\<close>, \<^verbatim>\<open>null\<close>, \<^verbatim>\<open>false\<close>, \<^verbatim>\<open>0\<close> and the empty
  string; every array and every object is truthy.
\<close>

fun falsy :: "js_val \<Rightarrow> bool" where
  "falsy JUndefined = True"
| "falsy JNull = True"
| "falsy (JBool b) = (\<not> b)"
| "falsy (JNum n) = (n = 0)"
| "falsy (JStr s) = (s = [])"
| "falsy (JArr xs ps) = False"
| "falsy (JObj ps) = False"

definition lookup :: "(string \<times> js_val) list \<Rightarrow> string \<Rightarrow> js_val" where
  "lookup ps k = (case map_of ps k of None \<Rightarrow> JUndefined | Some v \<Rightarrow> v)"

text \<open>
  \<^verbatim>\<open>v.k\<close> for a key \<open>k\<close> that is a name (not an index). Reading a property of \<^verbatim>\<open>null\<close> or
  \<^verbatim>\<open>undefined\<close> throws a TypeError; the message is the engine's (V8's wording, without its
  quotation marks). A primitive has no property of its own but a string's \<^verbatim>\<open>length\<close>.
\<close>

fun get :: "js_val \<Rightarrow> string \<Rightarrow> js_val result" where
  "get JUndefined k = Inl (ErrorObj (''Cannot read properties of undefined (reading '' @ k @ '')''))"
| "get JNull k = Inl (ErrorObj (''Cannot read properties of null (reading '' @ k @ '')''))"
| "get (JBool b) k = Inr JUndefined"
| "get (JNum n) k = Inr JUndefined"
| "get (JStr s) k = Inr (if k = ''length'' then JNum (int (length s)) else JUndefined)"
| "get (JArr xs ps) k = Inr (if k = ''length'' then JNum (int (length xs)) else lookup ps k)"
| "get (JObj ps) k = Inr (lookup ps k)"

text \<open>\<^verbatim>\<open>v[i]\<close> for a number \<open>i\<close>.\<close>

fun get_index :: "js_val \<Rightarrow> nat \<Rightarrow> js_val result" where
  "get_index JUndefined i = Inl (ErrorObj (''Cannot read properties of undefined (reading '' @ show_nat i @ '')''))"
| "get_index JNull i = Inl (ErrorObj (''Cannot read properties of null (reading '' @ show_nat i @ '')''))"
| "get_index (JBool b) i = Inr JUndefined"
| "get_index (JNum n) i = Inr JUndefined"
| "get_index (JStr s) i = Inr (if i < length s then JStr [s ! i] else JUndefined)"
| "get_index (JArr xs ps) i = Inr (if i < length xs then xs ! i else lookup ps (show_nat i))"
| "get_index (JObj ps) i = Inr (lookup ps (show_nat i))"

text \<open>
  \<open>upd k v ps\<close>: the properties after \<^verbatim>\<open>o.k = v\<close>, and after a later \<^verbatim>\<open>k: v\<close> in an object
  literal: an existing key keeps its place and takes the value, a new key goes last.
\<close>

fun upd :: "string \<Rightarrow> js_val \<Rightarrow> (string \<times> js_val) list \<Rightarrow> (string \<times> js_val) list" where
  "upd k v [] = [(k, v)]"
| "upd k v (p # ps) = (if fst p = k then (k, v) # ps else p # upd k v ps)"

text \<open>
  \<^verbatim>\<open>o.k = v\<close>. The files are ES modules, hence strict code: assigning a property of a
  primitive throws a TypeError, as it does for \<^verbatim>\<open>null\<close> and \<^verbatim>\<open>undefined\<close>.
\<close>

fun set_prop :: "js_val \<Rightarrow> string \<Rightarrow> js_val \<Rightarrow> js_val result" where
  "set_prop (JObj ps) k v = Inr (JObj (upd k v ps))"
| "set_prop (JArr xs ps) k v = Inr (JArr xs (upd k v ps))"
| "set_prop JUndefined k v = Inl (ErrorObj (''Cannot set properties of undefined (setting '' @ k @ '')''))"
| "set_prop JNull k v = Inl (ErrorObj (''Cannot set properties of null (setting '' @ k @ '')''))"
| "set_prop w k v = Inl (ErrorObj (''Cannot create property '' @ k))"

text \<open>The own enumerable properties that \<^verbatim>\<open>{...v}\<close> copies.\<close>

fun spread :: "js_val \<Rightarrow> (string \<times> js_val) list" where
  "spread (JObj ps) = ps"
| "spread (JArr xs ps) = zip (map show_nat [0..<length xs]) xs @ ps"
| "spread (JStr s) = zip (map show_nat [0..<length s]) (map (\<lambda>c. JStr [c]) s)"
| "spread w = []"

section \<open>The HTTP exchange\<close>

text \<open>
  What one \<^verbatim>\<open>fetch\<close> of the loop observes. \<open>response_text\<close> and \<open>response_json\<close> are the outcomes of
  \<^verbatim>\<open>await response.text()\<close> and \<^verbatim>\<open>await response.json()\<close>: \<open>Inl\<close> is the message of the
  error either rejects with (a dropped connection, a body that is not JSON).
  \<^verbatim>\<open>response.ok\<close> is the browser's: the status is in 200..299.
\<close>

record response =
  status :: nat
  response_text :: "string + string"
  response_json :: "string + js_val"

definition ok :: "response \<Rightarrow> bool" where
  "ok r = (200 \<le> status r \<and> status r \<le> 299)"

datatype fetch_outcome =
    Rejects string
  | Resolves response

section \<open>tryGroqAnalysis: the model cascade\<close>

text \<open>How the \<^verbatim>\<open>try\<close> block of one iteration ends.\<close>

datatype attempt = Return js_val | Continue | Throw js_exn

text \<open>
  The \<^verbatim>\<open>try\<close> block of the loop body. The three source files differ only in the message
  of the error thrown on 401/403, the parameter \<open>critical\<close>.
\<close>

definition try_block :: "string \<Rightarrow> fetch_outcome \<Rightarrow> attempt" where
  "try_block critical fo =
     (case fo of
        Rejects msg \<Rightarrow> Throw (ErrorObj msg)
      | Resolves response \<Rightarrow>
          if \<not> ok response then
            (case response_text response of
               Inl msg \<Rightarrow> Throw (ErrorObj msg)
             | Inr errText \<Rightarrow>
                 if status response = 401 \<or> status response = 403 then Throw (ErrorObj critical)
                 else if status response = 400 \<or> status response = 404 then Continue
                 else Throw (ErrorObj (''Groq Error ('' @ show_nat (status response) @ ''): '' @ errText)))
          else
            (case response_json response of
               Inl msg \<Rightarrow> Throw (ErrorObj msg)
             | Inr v \<Rightarrow> Return v))"

text \<open>
  The result of the loop: the models a request was sent to, in the order of the requests,
  and what the function returns (\<open>Inr\<close>) or throws (\<open>Inl\<close>).
\<close>

type_synonym cascade = "string list \<times> js_val result"

definition contacted :: "string \<Rightarrow> cascade \<Rightarrow> cascade" where
  "contacted m c = (m # fst c, snd c)"

text \<open>
  The \<^verbatim>\<open>for ... of\<close> loop, from the models still to try. \<open>fetch\<close> answers the request
  that names a model; \<open>lastError\<close> is the variable of the source. The \<^verbatim>\<open>catch\<close> block
  stores the error, and rethrows it when its message includes \<^verbatim>\<open>API Key\<close>; \<^verbatim>\<open>continue\<close>
  leaves the \<^verbatim>\<open>try\<close> block without entering \<^verbatim>\<open>catch\<close>. After the loop: \<^verbatim>\<open>throw lastError\<close>.
\<close>

fun tryGroqAnalysis_loop ::
  "string \<Rightarrow> (string \<Rightarrow> fetch_outcome) \<Rightarrow> js_exn \<Rightarrow> string list \<Rightarrow> cascade" where
  "tryGroqAnalysis_loop critical fetch lastError [] = ([], Inl lastError)"
| "tryGroqAnalysis_loop critical fetch lastError (modelName # rest) =
     (case try_block critical (fetch modelName) of
        Return v \<Rightarrow> ([modelName], Inr v)
      | Continue \<Rightarrow> contacted modelName (tryGroqAnalysis_loop critical fetch lastError rest)
      | Throw e \<Rightarrow>
          (case e of
             ThrownNull \<Rightarrow>
               ([modelName], Inl (ErrorObj ''Cannot read properties of null (reading message)''))
           | ErrorObj message \<Rightarrow>
               if includesStr message ''API Key'' then ([modelName], Inl e)
               else contacted modelName (tryGroqAnalysis_loop critical fetch e rest)))"

text \<open>The constants of \<^verbatim>\<open>src/geminiService.ts\<close>.\<close>

definition VISION_MODELS :: "string list" where
  "VISION_MODELS =
     [''llama-3.2-90b-vision-preview'',
      ''meta-llama/llama-4-scout-17b-16e-instruct'',
      ''llama-3.2-11b-vision-preview'']"

definition critical :: string where
  "critical = ''CRITICAL: API Key Restricted or Invalid.''"

definition tryGroqAnalysis :: "(string \<Rightarrow> fetch_outcome) \<Rightarrow> cascade" where
  "tryGroqAnalysis fetch = tryGroqAnalysis_loop critical fetch ThrownNull VISION_MODELS"

text \<open>
  \<^verbatim>\<open>part_000\<close> and \<^verbatim>\<open>part_001\<close> repeat the function with their own model lists and their
  own message for 401/403.
\<close>

definition VISION_MODELS_part_000 :: "string list" where
  "VISION_MODELS_part_000 =
     [''meta-llama/llama-3.2-11b-vision-preview'',
      ''llama-3.2-90b-vision-preview'',
      ''llama-guard-3-8b'']"

definition VISION_MODELS_part_001 :: "string list" where
  "VISION_MODELS_part_001 =
     [''meta-llama/llama-4-scout-17b-16e-instruct'',
      ''llama-3.2-90b-vision-preview'',
      ''llama-3.2-11b-vision-preview'']"

definition critical_restricted :: string where
  "critical_restricted = ''CRITICAL: API Key Restricted.''"

definition tryGroqAnalysis_part_000 :: "(string \<Rightarrow> fetch_outcome) \<Rightarrow> cascade" where
  "tryGroqAnalysis_part_000 fetch =
     tryGroqAnalysis_loop critical_restricted fetch ThrownNull VISION_MODELS_part_000"

definition tryGroqAnalysis_part_001 :: "(string \<Rightarrow> fetch_outcome) \<Rightarrow> cascade" where
  "tryGroqAnalysis_part_001 fetch =
     tryGroqAnalysis_loop critical_restricted fetch ThrownNull VISION_MODELS_part_001"

section \<open>The browser and the service, as the code sees them\<close>

text \<open>
  \<^item> \<open>GROQ_API_KEY\<close>: \<^verbatim>\<open>import.meta.env.VITE_GROQ_API_KEY\<close>, a string or \<^verbatim>\<open>undefined\<close>.
  \<^item> \<open>load\<close>: decoding \<^verbatim>\<open>img.src\<close>: \<open>Some (width, height)\<close> fires \<^verbatim>\<open>onload\<close> with the
    natural size of the image, \<open>None\<close> fires \<^verbatim>\<open>onerror\<close>.
  \<^item> \<open>toDataURL\<close>: the JPEG data URL (quality 0.7) of a canvas of the given width and
    height on which the image of the given source was drawn.
  \<^item> \<open>fetch\<close>: the answer to the POST whose payload holds the given image URL and names the
    given model.
  \<^item> \<open>JSON_parse\<close>: \<^verbatim>\<open>JSON.parse\<close>; \<open>Inl\<close> is the message of its SyntaxError.
\<close>

record env =
  GROQ_API_KEY :: js_val
  load :: "string \<Rightarrow> (nat \<times> nat) option"
  toDataURL :: "string \<Rightarrow> nat \<Rightarrow> nat \<Rightarrow> string"
  fetch :: "string \<Rightarrow> string \<Rightarrow> fetch_outcome"
  JSON_parse :: "js_val \<Rightarrow> string + js_val"

section \<open>compressImage\<close>

text \<open>
  \<^verbatim>\<open>Math.round\<close>: the nearest integer, a tie going up. Numbers are real numbers here; the
  double the source divides into rounds to the same integer as the exact quotient for
  every image size a browser decodes.
\<close>

definition Math_round :: "real \<Rightarrow> int" where
  "Math_round x = \<lfloor>x + 1 / 2\<rfloor>"

text \<open>The "Resize logic" of \<^verbatim>\<open>img.onload\<close>: the width and height given to the canvas.\<close>

definition canvas_size :: "nat \<Rightarrow> nat \<Rightarrow> nat \<Rightarrow> nat \<times> nat" where
  "canvas_size maxWidth width height =
     (if width > maxWidth
      then (maxWidth, nat (Math_round (real (height * maxWidth) / real width)))
      else (width, height))"

definition img_src :: "string \<Rightarrow> string" where
  "img_src base64Str =
     (if startsWith base64Str ''data:'' then base64Str
      else ''data:image/jpeg;base64,'' @ base64Str)"

definition compressImage :: "env \<Rightarrow> string \<Rightarrow> nat \<Rightarrow> string" where
  "compressImage e base64Str maxWidth =
     (case load e (img_src base64Str) of
        None \<Rightarrow> base64Str
      | Some (w, h) \<Rightarrow>
          toDataURL e (img_src base64Str)
            (fst (canvas_size maxWidth w h)) (snd (canvas_size maxWidth w h)))"

section \<open>analyzeSkinImage\<close>

text \<open>
  The calls of \<^verbatim>\<open>alert\<close> and \<^verbatim>\<open>console\<close> show a message and change nothing that the function
  returns; they are left out, but for the read of \<^verbatim>\<open>error.message\<close> in their argument.
\<close>

text \<open>
  \<^verbatim>\<open>const content = data.choices[0].message.content; const result = JSON.parse(content);\<close>
\<close>

definition parse_reply :: "(js_val \<Rightarrow> string + js_val) \<Rightarrow> js_val \<Rightarrow> js_val result" where
  "parse_reply parse data =
     bind (get data ''choices'') (\<lambda>choices.
     bind (get_index choices 0) (\<lambda>choice.
     bind (get choice ''message'') (\<lambda>message.
     bind (get message ''content'') (\<lambda>content.
       case parse content of
         Inl msg \<Rightarrow> Inl (ErrorObj msg)
       | Inr result \<Rightarrow> Inr result))))"

text \<open>
  An object literal \<^verbatim>\<open>{ ...v, k1: v1, k2: v2 }\<close>: the properties spread first, then each
  named property in the order written.
\<close>

definition literal :: "(string \<times> js_val) list \<Rightarrow> (string \<times> js_val) list \<Rightarrow> js_val" where
  "literal base named = JObj (foldl (\<lambda>ps kv. upd (fst kv) (snd kv) ps) base named)"

text \<open>An array literal of strings.\<close>

definition strings :: "string list \<Rightarrow> js_val" where
  "strings xs = JArr (map JStr xs) []"

text \<open>The record returned when the key is missing, the same in the three files.\<close>

definition key_missing :: js_val where
  "key_missing =
     literal []
       [(''isSkin'', JBool False), (''isHealthy'', JBool False),
        (''diseaseName'', JStr ''Error''), (''description'', JStr ''Key Missing'')]"

subsection \<open>src/geminiService.ts\<close>

text \<open>From \<^verbatim>\<open>if (result.isSkin === false)\<close> to \<^verbatim>\<open>return result\<close>.\<close>

definition on_result :: "js_val \<Rightarrow> js_val result" where
  "on_result result =
     bind (get result ''isSkin'') (\<lambda>isSkin.
       if isSkin = JBool False then
         Inr (literal (spread result)
           [(''isHealthy'', JBool False),
            (''diseaseName'', JStr ''No Skin Detected''),
            (''description'', JStr ''The AI could not identify human skin texture in this image. Please upload a clear, close-up photo of the affected area.'')])
       else Inr result)"

text \<open>The body of the \<^verbatim>\<open>try\<close> block.\<close>

definition try_analysis :: "env \<Rightarrow> string \<Rightarrow> js_val result" where
  "try_analysis e compressedImage =
     bind (snd (tryGroqAnalysis (fetch e compressedImage))) (\<lambda>data.
     bind (parse_reply (JSON_parse e) data) on_result)"

text \<open>
  The \<^verbatim>\<open>catch\<close> block. It reads \<^verbatim>\<open>error.message\<close>, for the alert and for the description:
  on \<^verbatim>\<open>null\<close> that read throws, out of the \<^verbatim>\<open>catch\<close> block and so out of the function.
\<close>

definition catch_analysis :: "js_exn \<Rightarrow> js_val result" where
  "catch_analysis error =
     (case error of
        ThrownNull \<Rightarrow> Inl (ErrorObj ''Cannot read properties of null (reading message)'')
      | ErrorObj message \<Rightarrow>
          Inr (literal []
            [(''isSkin'', JBool False), (''isHealthy'', JBool False),
             (''diseaseName'', JStr ''Analysis Error''), (''description'', JStr message)]))"

text \<open>
  The promise the function returns: \<open>Inr\<close> is the value it resolves to, \<open>Inl\<close> the value it
  rejects with.
\<close>

definition analyzeSkinImage :: "env \<Rightarrow> string \<Rightarrow> js_val result" where
  "analyzeSkinImage e base64Image =
     (if falsy (GROQ_API_KEY e) then Inr key_missing
      else
        (case try_analysis e (compressImage e base64Image 1024) of
           Inr v \<Rightarrow> Inr v
         | Inl error \<Rightarrow> catch_analysis error))"

subsection \<open>src/unnamed/part_000\<close>

text \<open>\<^verbatim>\<open>a || b\<close>.\<close>

definition or_else :: "js_val \<Rightarrow> js_val \<Rightarrow> js_val" where
  "or_else a b = (if falsy a then b else a)"

definition scan_failed :: js_val where
  "scan_failed =
     JArr [JObj [(''title'', JStr ''Scan Failed''),
                 (''details'', JStr ''The image quality was too low to identify skin.'')]] []"

text \<open>\<^verbatim>\<open>!result.reasons || result.reasons.length === 0\<close>.\<close>

definition no_reasons :: "js_val \<Rightarrow> bool result" where
  "no_reasons result =
     bind (get result ''reasons'') (\<lambda>reasons.
       if falsy reasons then Inr True
       else bind (get reasons ''length'') (\<lambda>n. Inr (n = JNum 0)))"

text \<open>From \<^verbatim>\<open>if (result.isSkin === false)\<close> to \<^verbatim>\<open>return result\<close>.\<close>

definition on_result_part_000 :: "js_val \<Rightarrow> js_val result" where
  "on_result_part_000 result =
     bind (get result ''isSkin'') (\<lambda>isSkin.
       if isSkin = JBool False then
         bind (no_reasons result) (\<lambda>none.
         bind (if none then set_prop result ''reasons'' scan_failed else Inr result) (\<lambda>result.
         bind (get result ''diseaseName'') (\<lambda>diseaseName.
         bind (get result ''description'') (\<lambda>description.
         bind (get result ''symptoms'') (\<lambda>symptoms.
         bind (get result ''precautions'') (\<lambda>precautions.
           Inr (literal (spread result)
             [(''isHealthy'', JBool False),
              (''diseaseName'', or_else diseaseName (JStr ''No Skin Detected'')),
              (''description'', or_else description (JStr ''The analysis could not identify human skin.'')),
              (''symptoms'', or_else symptoms (JArr [] [])),
              (''treatments'', JArr [] []),
              (''medicines'', JArr [] []),
              (''precautions'', or_else precautions (JArr [] [])),
              (''prevention'', JArr [] [])])))))))
       else Inr result)"

definition try_analysis_part_000 :: "env \<Rightarrow> string \<Rightarrow> js_val result" where
  "try_analysis_part_000 e compressedImage =
     bind (snd (tryGroqAnalysis_part_000 (fetch e compressedImage))) (\<lambda>data.
     bind (parse_reply (JSON_parse e) data) on_result_part_000)"

text \<open>
  The \<^verbatim>\<open>catch\<close> block: \<^verbatim>\<open>error.message || "Network Error"\<close> inside the description; the
  read of \<^verbatim>\<open>error.message\<close> throws on \<^verbatim>\<open>null\<close>.
\<close>

definition catch_analysis_part_000 :: "js_exn \<Rightarrow> js_val result" where
  "catch_analysis_part_000 error =
     (case error of
        ThrownNull \<Rightarrow> Inl (ErrorObj ''Cannot read properties of null (reading message)'')
      | ErrorObj message \<Rightarrow>
          Inr (literal []
            [(''isSkin'', JBool False), (''isHealthy'', JBool False),
             (''diseaseName'', JStr ''Analysis Failed''),
             (''description'', JStr (''The AI could not complete the scan. Reason: ''
                @ (if message = [] then ''Network Error'' else message) @ ''.'')),
             (''symptoms'', JArr [] []), (''reasons'', JArr [] []),
             (''treatments'', JArr [] []), (''medicines'', JArr [] []),
             (''precautions'', JArr [] []), (''prevention'', JArr [] []),
             (''healingPeriod'', JStr ''Unknown'')]))"

definition analyzeSkinImage_part_000 :: "env \<Rightarrow> string \<Rightarrow> js_val result" where
  "analyzeSkinImage_part_000 e base64Image =
     (if falsy (GROQ_API_KEY e) then Inr key_missing
      else
        (case try_analysis_part_000 e (compressImage e base64Image 1024) of
           Inr v \<Rightarrow> Inr v
         | Inl error \<Rightarrow> catch_analysis_part_000 error))"

subsection \<open>src/unnamed/part_001\<close>

text \<open>\<^verbatim>\<open>v?.length\<close>.\<close>

definition optional_length :: "js_val \<Rightarrow> js_val result" where
  "optional_length v = (if v = JUndefined \<or> v = JNull then Inr JUndefined else get v ''length'')"

text \<open>\<^verbatim>\<open>if (!result.k?.length) result.k = d;\<close>\<close>

definition backfill :: "string \<Rightarrow> js_val \<Rightarrow> js_val \<Rightarrow> js_val result" where
  "backfill k d result =
     bind (get result k) (\<lambda>v.
     bind (optional_length v) (\<lambda>n.
       if falsy n then set_prop result k d else Inr result))"

definition defaultAdvice :: js_val where
  "defaultAdvice =
     strings [''Maintain daily hygiene'', ''Use sunscreen (SPF 50)'', ''Drink 3L water daily'']"

text \<open>From \<^verbatim>\<open>const defaultAdvice\<close> to \<^verbatim>\<open>return result\<close>.\<close>

definition on_result_part_001 :: "js_val \<Rightarrow> js_val result" where
  "on_result_part_001 result =
     bind (backfill ''symptoms''
             (strings [''No critical symptoms detected.'', ''Standard skin texture observed.''])
             result) (\<lambda>result.
     bind (backfill ''reasons''
             (strings [''Genetics'', ''Environmental factors'', ''Lifestyle choices''])
             result) (\<lambda>result.
     bind (backfill ''precautions'' defaultAdvice result) (\<lambda>result.
     bind (backfill ''prevention'' defaultAdvice result) (\<lambda>result.
     bind (get result ''isSkin'') (\<lambda>isSkin.
       if isSkin = JBool False then
         Inr (literal (spread result)
           [(''isHealthy'', JBool False),
            (''diseaseName'', JStr ''No Skin Detected''),
            (''description'', JStr ''The AI could not clearly identify human skin. This may be due to lighting, blur, or the object not being skin.''),
            (''symptoms'', strings [''Image blur'', ''Poor lighting'', ''Non-skin object'']),
            (''reasons'', strings [''Camera not focused'', ''Object is too far'', ''Shadows obscuring details'']),
            (''precautions'', strings [''Use natural lighting'', ''Hold camera steady'', ''Focus on the skin area''])])
       else Inr result)))))"

definition try_analysis_part_001 :: "env \<Rightarrow> string \<Rightarrow> js_val result" where
  "try_analysis_part_001 e compressedImage =
     bind (snd (tryGroqAnalysis_part_001 (fetch e compressedImage))) (\<lambda>data.
     bind (parse_reply (JSON_parse e) data) on_result_part_001)"

text \<open>The \<^verbatim>\<open>catch\<close> block is that of \<^verbatim>\<open>src/geminiService.ts\<close>.\<close>

definition analyzeSkinImage_part_001 :: "env \<Rightarrow> string \<Rightarrow> js_val result" where
  "analyzeSkinImage_part_001 e base64Image =
     (if falsy (GROQ_API_KEY e) then Inr key_missing
      else
        (case try_analysis_part_001 e (compressImage e base64Image 1024) of
           Inr v \<Rightarrow> Inr v
         | Inl error \<Rightarrow> catch_analysis error))"

section \<open>The declared shape of a result (src/types.ts)\<close>

definition is_string :: "js_val \<Rightarrow> bool" where
  "is_string v = (case v of JStr s \<Rightarrow> True | _ \<Rightarrow> False)"

definition is_boolean :: "js_val \<Rightarrow> bool" where
  "is_boolean v = (case v of JBool b \<Rightarrow> True | _ \<Rightarrow> False)"

definition is_string_or_null :: "js_val \<Rightarrow> bool" where
  "is_string_or_null v = (case v of JStr s \<Rightarrow> True | JNull \<Rightarrow> True | _ \<Rightarrow> False)"

text \<open>\<^verbatim>\<open>interface AnalysisPoint { title: string; details: string; }\<close>\<close>

definition is_AnalysisPoint :: "js_val \<Rightarrow> bool" where
  "is_AnalysisPoint v =
     (case v of
        JObj ps \<Rightarrow> is_string (lookup ps ''title'') \<and> is_string (lookup ps ''details'')
      | _ \<Rightarrow> False)"

text \<open>\<^verbatim>\<open>string[]\<close> and \<^verbatim>\<open>AnalysisPoint[] | string[]\<close>.\<close>

definition is_string_array :: "js_val \<Rightarrow> bool" where
  "is_string_array v = (case v of JArr xs ps \<Rightarrow> list_all is_string xs | _ \<Rightarrow> False)"

definition is_points :: "js_val \<Rightarrow> bool" where
  "is_points v =
     (case v of
        JArr xs ps \<Rightarrow> list_all is_AnalysisPoint xs \<or> list_all is_string xs
      | _ \<Rightarrow> False)"

text \<open>\<^verbatim>\<open>interface SkinAnalysis\<close>: every field is required.\<close>

definition is_SkinAnalysis :: "js_val \<Rightarrow> bool" where
  "is_SkinAnalysis v =
     (case v of
        JObj ps \<Rightarrow>
          is_boolean (lookup ps ''isSkin'') \<and> is_boolean (lookup ps ''isHealthy'')
          \<and> is_string_or_null (lookup ps ''diseaseName'')
          \<and> is_string_or_null (lookup ps ''description'')
          \<and> is_points (lookup ps ''symptoms'') \<and> is_points (lookup ps ''reasons'')
          \<and> is_points (lookup ps ''precautions'') \<and> is_points (lookup ps ''prevention'')
          \<and> is_points (lookup ps ''treatments'')
          \<and> is_string_array (lookup ps ''medicines'')
          \<and> is_string_or_null (lookup ps ''healingPeriod'')
      | _ \<Rightarrow> False)"

section \<open>Replies and environments named in the statements\<close>

text \<open>
  An attempt is answered with a status when \<^verbatim>\<open>fetch\<close> resolves with that status and the body
  of the reply is read. It succeeds with a value when the status is a success
  (\<^verbatim>\<open>response.ok\<close>) and the body is the JSON of that value.
\<close>

definition answered :: "nat \<Rightarrow> fetch_outcome \<Rightarrow> bool" where
  "answered st fo =
     (case fo of
        Rejects msg \<Rightarrow> False
      | Resolves r \<Rightarrow>
          status r = st \<and> (case response_text r of Inl msg \<Rightarrow> False | Inr t \<Rightarrow> True))"


text \<open>A reply with an error status and a text body, and a 200 reply with a JSON body.\<close>

definition error_reply :: "nat \<Rightarrow> string \<Rightarrow> fetch_outcome" where
  "error_reply st body =
     Resolves \<lparr>status = st, response_text = Inr body, response_json = Inl ''Unexpected token''\<rparr>"

definition json_reply :: "js_val \<Rightarrow> fetch_outcome" where
  "json_reply v = Resolves \<lparr>status = 200, response_text = Inr [], response_json = Inr v\<rparr>"

text \<open>
  A configured key, an image that does not decode, and a service that answers 404 (model
  not found) for every model.
\<close>

definition models_unavailable :: env where
  "models_unavailable =
     \<lparr>GROQ_API_KEY = JStr ''gsk_key'',
      load = (\<lambda>src. None),
      toDataURL = (\<lambda>src w h. src),
      fetch = (\<lambda>image m. error_reply 404 ''model not found''),
      JSON_parse = (\<lambda>v. Inl ''Unexpected token'')\<rparr>"

text \<open>An image of 2048 by 1001 pixels; the encoder tells whether the canvas is 1024 by 501.\<close>

definition wide_image :: env where
  "wide_image =
     \<lparr>GROQ_API_KEY = JStr ''gsk_key'',
      load = (\<lambda>src. Some (2048, 1001)),
      toDataURL = (\<lambda>src w h. if w = 1024 \<and> h = 501 then ''1024x501'' else ''other size''),
      fetch = (\<lambda>image m. error_reply 404 ''model not found''),
      JSON_parse = (\<lambda>v. Inl ''Unexpected token'')\<rparr>"

text \<open>
  The object literal \<^verbatim>\<open>{ isSkin: false, isHealthy: false, diseaseName, description }\<close>
  with its four properties and no other.
\<close>

definition four_fields :: "string \<Rightarrow> string \<Rightarrow> js_val" where
  "four_fields name description =
     JObj [(''isSkin'', JBool False), (''isHealthy'', JBool False),
           (''diseaseName'', JStr name), (''description'', JStr description)]"

text \<open>\<^verbatim>\<open>Object.keys(v)\<close>.\<close>

definition own_keys :: "js_val \<Rightarrow> string list" where
  "own_keys v = map fst (spread v)"

text \<open>A value that is truthy and is not an empty array.\<close>

definition present :: "js_val \<Rightarrow> bool" where
  "present v = (\<not> falsy v \<and> (case v of JArr xs ps \<Rightarrow> xs \<noteq> [] | _ \<Rightarrow> True))"

text \<open>An array with at least one element.\<close>

definition nonempty_list :: "js_val \<Rightarrow> bool" where
  "nonempty_list v = (case v of JArr xs ps \<Rightarrow> xs \<noteq> [] | _ \<Rightarrow> False)"

text \<open>The property \<open>k\<close> of \<open>r\<close> can be read and is present.\<close>

definition filled :: "js_val \<Rightarrow> string \<Rightarrow> bool" where
  "filled r k = (case get r k of Inl e \<Rightarrow> False | Inr v \<Rightarrow> present v)"

text \<open>
  A parsed reply that is an object whose \<^verbatim>\<open>symptoms\<close>, \<^verbatim>\<open>reasons\<close>, \<^verbatim>\<open>precautions\<close>,
  \<^verbatim>\<open>prevention\<close> and \<^verbatim>\<open>treatments\<close> are non-empty arrays.
\<close>

definition five_lists :: "js_val \<Rightarrow> bool" where
  "five_lists result =
     (case result of
        JObj ps \<Rightarrow>
          list_all (\<lambda>k. nonempty_list (lookup ps k))
            [''symptoms'', ''reasons'', ''precautions'', ''prevention'', ''treatments'']
      | _ \<Rightarrow> False)"

text \<open>No key is configured.\<close>

definition no_key :: env where
  "no_key = models_unavailable\<lparr>GROQ_API_KEY := JUndefined\<rparr>"

text \<open>A configured key and no network: every \<^verbatim>\<open>fetch\<close> rejects.\<close>

definition offline :: env where
  "offline = models_unavailable\<lparr>fetch := (\<lambda>image m. Rejects ''Failed to fetch'')\<rparr>"

text \<open>A chat-completion body whose first choice carries a message with text content.\<close>

definition reply_body :: js_val where
  "reply_body =
     JObj [(''choices'', JArr [JObj [(''message'', JObj [(''content'', JStr ''reply'')])]] [])]"

text \<open>
  A configured key, an image that does not decode, a service that answers every model with
  that body, and a \<^verbatim>\<open>JSON.parse\<close> that reads the given value from the content.
\<close>

definition replying :: "js_val \<Rightarrow> env" where
  "replying result =
     \<lparr>GROQ_API_KEY = JStr ''gsk_key'',
      load = (\<lambda>src. None),
      toDataURL = (\<lambda>src w h. src),
      fetch = (\<lambda>image m. json_reply reply_body),
      JSON_parse = (\<lambda>content. Inr result)\<rparr>"

text \<open>A reply that rejects the image and fills every list.\<close>

definition wall :: js_val where
  "wall =
     JObj [(''isSkin'', JBool False), (''isHealthy'', JBool True),
           (''diseaseName'', JStr ''Wall''),
           (''symptoms'', strings [''Red wall paint'']),
           (''reasons'', strings [''Not skin'']),
           (''precautions'', strings [''Retake the photo'']),
           (''prevention'', strings [''Keep the lens clean'']),
           (''treatments'', strings [''None needed''])]"

text \<open>A reply that accepts the image and has an empty list of treatments and no other list.\<close>

definition bare_skin :: js_val where
  "bare_skin =
     JObj [(''isSkin'', JBool True), (''isHealthy'', JBool True),
           (''diseaseName'', JStr ''Healthy Skin''),
           (''treatments'', JArr [] [])]"

text \<open>A reply that rejects the image and says nothing else.\<close>

definition not_skin :: js_val where
  "not_skin = JObj [(''isSkin'', JBool False)]"

text \<open>A reply that accepts the image and fills every list.\<close>

definition eczema :: js_val where
  "eczema =
     JObj [(''isSkin'', JBool True), (''isHealthy'', JBool False),
           (''diseaseName'', JStr ''Eczema''),
           (''symptoms'', strings [''Dry patches'']),
           (''reasons'', strings [''Irritants'']),
           (''precautions'', strings [''Avoid scratching'']),
           (''prevention'', strings [''Moisturise daily'']),
           (''treatments'', strings [''Emollient cream''])]"

section \<open>The cascade: one iteration\<close>

lemma critical_includes:
  "includesStr critical ''API Key''" "includesStr critical_restricted ''API Key''"
  by (simp_all add: critical_def critical_restricted_def)


lemma try_block_skippable:
  "answered 400 fo \<or> answered 404 fo \<Longrightarrow> try_block c fo = Continue"
  by (auto simp: answered_def try_block_def ok_def split: fetch_outcome.splits sum.splits)

lemma try_block_credential:
  "answered 401 fo \<or> answered 403 fo \<Longrightarrow> try_block c fo = Throw (ErrorObj c)"
  by (auto simp: answered_def try_block_def ok_def split: fetch_outcome.splits sum.splits)


section \<open>The cascade: the loop\<close>


lemma loop_skips:
  "\<forall>x\<in>set pre. answered 400 (f x) \<or> answered 404 (f x) \<Longrightarrow>
   tryGroqAnalysis_loop c f le (pre @ ms) =
     (pre @ fst (tryGroqAnalysis_loop c f le ms), snd (tryGroqAnalysis_loop c f le ms))"
  by (induction pre) (auto simp: try_block_skippable contacted_def)

text \<open>When every model is skipped, \<^verbatim>\<open>lastError\<close> is thrown as it was on entry.\<close>

lemma loop_all_skipped:
  "\<forall>x\<in>set ms. answered 400 (f x) \<or> answered 404 (f x) \<Longrightarrow>
   tryGroqAnalysis_loop c f le ms = (ms, Inl le)"
  using loop_skips [of ms f c le "[]"] by simp

text \<open>
  An attempt that ends the loop, whatever \<^verbatim>\<open>lastError\<close> holds and whatever candidates
  follow: when a request went to such a model, it was the last request.
\<close>

lemma loop_ends:
  assumes "\<And>le rest. tryGroqAnalysis_loop c f le (m # rest) = ([m], out)"
      and "m \<in> set (fst (tryGroqAnalysis_loop c f le ms))"
  shows "tryGroqAnalysis_loop c f le ms = (takeWhile (\<lambda>x. x \<noteq> m) ms @ [m], out)"
  using assms(2)
proof (induction ms arbitrary: le)
  case Nil
  then show ?case by simp
next
  case (Cons x ms)
  show ?case
  proof (cases "x = m")
    case True
    then show ?thesis
      using assms(1) by simp
  next
    case False
    show ?thesis
    proof (cases "try_block c (f x)")
      case (Return v)
      then show ?thesis using Cons.prems False by simp
    next
      case Continue
      then have "m \<in> set (fst (tryGroqAnalysis_loop c f le ms))"
        using Cons.prems False by (simp add: contacted_def)
      from Cons.IH [OF this] show ?thesis
        using Continue False by (simp add: contacted_def)
    next
      case (Throw e)
      show ?thesis
      proof (cases e)
        case ThrownNull
        then show ?thesis using Throw Cons.prems False by simp
      next
        case (ErrorObj message)
        show ?thesis
        proof (cases "includesStr message ''API Key''")
          case True
          then show ?thesis using Throw ErrorObj Cons.prems False by simp
        next
          case stored: False
          then have "m \<in> set (fst (tryGroqAnalysis_loop c f e ms))"
            using Throw ErrorObj Cons.prems False by (simp add: contacted_def)
          from Cons.IH [OF this] show ?thesis
            using Throw ErrorObj stored False by (simp add: contacted_def)
        qed
      qed
    qed
  qed
qed

lemma loop_credential:
  assumes "includesStr c ''API Key''"
      and "m \<in> set (fst (tryGroqAnalysis_loop c f le ms))"
      and "answered 401 (f m) \<or> answered 403 (f m)"
  shows "tryGroqAnalysis_loop c f le ms = (takeWhile (\<lambda>x. x \<noteq> m) ms @ [m], Inl (ErrorObj c))"
proof (rule loop_ends)
  show "tryGroqAnalysis_loop c f le' (m # rest) = ([m], Inl (ErrorObj c))" for le' rest
    using assms(1,3) by (simp add: try_block_credential)
qed (rule assms(2))


text \<open>
  The function throws \<^verbatim>\<open>null\<close> only when \<^verbatim>\<open>lastError\<close> was \<^verbatim>\<open>null\<close> on entry and every
  attempt ended in \<^verbatim>\<open>continue\<close>.
\<close>

lemma loop_null:
  assumes "snd (tryGroqAnalysis_loop c f le ms) = Inl ThrownNull"
  shows "le = ThrownNull \<and> (\<forall>m\<in>set ms. try_block c (f m) = Continue)"
  using assms
proof (induction ms arbitrary: le)
  case Nil
  then show ?case by simp
next
  case (Cons x ms)
  show ?case
  proof (cases "try_block c (f x)")
    case (Return v)
    with Cons.prems show ?thesis by simp
  next
    case Continue
    with Cons.prems have "snd (tryGroqAnalysis_loop c f le ms) = Inl ThrownNull"
      by (simp add: contacted_def)
    from Cons.IH [OF this] Continue show ?thesis by simp
  next
    case (Throw e)
    show ?thesis
    proof (cases e)
      case ThrownNull
      with Throw Cons.prems show ?thesis by simp
    next
      case (ErrorObj message)
      show ?thesis
      proof (cases "includesStr message ''API Key''")
        case True
        with Throw ErrorObj Cons.prems show ?thesis by simp
      next
        case False
        with Throw ErrorObj Cons.prems
        have "snd (tryGroqAnalysis_loop c f e ms) = Inl ThrownNull"
          by (simp add: contacted_def)
        from Cons.IH [OF this] ErrorObj show ?thesis by simp
      qed
    qed
  qed
qed



text \<open>
  C4, as the claim states it, fails: the first model of \<^verbatim>\<open>src/geminiService.ts\<close> answers
  with status 401 and the read of the body rejects. The source awaits
  \<^verbatim>\<open>response.text()\<close> before it looks at the status, so the rejection reaches the \<^verbatim>\<open>catch\<close>
  block of the loop as any network failure does: it is stored, the second model is
  contacted, and its reply is returned.
\<close>

theorem unread_401_does_not_abort:
  "tryGroqAnalysis
     (\<lambda>m. if m = ''llama-3.2-90b-vision-preview''
          then Resolves \<lparr>status = 401, response_text = Inl ''network error'',
                         response_json = Inl ''network error''\<rparr>
          else json_reply (JObj []))
     = ([''llama-3.2-90b-vision-preview'', ''meta-llama/llama-4-scout-17b-16e-instruct''],
        Inr (JObj []))"
  by (simp add: tryGroqAnalysis_def VISION_MODELS_def try_block_def ok_def json_reply_def
      contacted_def)

text \<open>
  C4, amended. When a request of the loop went to a model \<open>m\<close> that answers 401 or 403 and
  the body of the answer is read, the function throws the credential error, and the
  requests recorded are those to the candidates before \<open>m\<close> and the one to \<open>m\<close>: no
  candidate after \<open>m\<close> is contacted. When the status is 401 or 403 and the read of the body
  rejects, the rejection is what the \<^verbatim>\<open>catch\<close> block sees: the loop aborts with it when its
  message includes \<^verbatim>\<open>API Key\<close>, and otherwise stores it in \<^verbatim>\<open>lastError\<close> and goes on with
  the next candidate. Stated for the loop of \<^verbatim>\<open>src/geminiService.ts\<close>, from any candidate
  list and any value of \<^verbatim>\<open>lastError\<close>.
\<close>

theorem credential_error_aborts_cascade:
  "(m \<in> set (fst (tryGroqAnalysis_loop critical f le ms))
      \<and> (answered 401 (f m) \<or> answered 403 (f m)) \<longrightarrow>
      tryGroqAnalysis_loop critical f le ms =
        (takeWhile (\<lambda>x. x \<noteq> m) ms @ [m], Inl (ErrorObj critical)))
   \<and> (f m = Resolves r \<and> (status r = 401 \<or> status r = 403) \<and> response_text r = Inl msg \<longrightarrow>
      tryGroqAnalysis_loop critical f le (m # ms) =
        (if includesStr msg ''API Key'' then ([m], Inl (ErrorObj msg))
         else contacted m (tryGroqAnalysis_loop critical f (ErrorObj msg) ms)))"
proof (intro conjI impI)
  assume "m \<in> set (fst (tryGroqAnalysis_loop critical f le ms))
      \<and> (answered 401 (f m) \<or> answered 403 (f m))"
  then show "tryGroqAnalysis_loop critical f le ms =
        (takeWhile (\<lambda>x. x \<noteq> m) ms @ [m], Inl (ErrorObj critical))"
    using critical_includes(1) by (simp add: loop_credential)
next
  assume h: "f m = Resolves r \<and> (status r = 401 \<or> status r = 403) \<and> response_text r = Inl msg"
  then have "\<not> ok r"
    by (auto simp: ok_def)
  with h have "try_block critical (f m) = Throw (ErrorObj msg)"
    by (simp add: try_block_def)
  then show "tryGroqAnalysis_loop critical f le (m # ms) =
        (if includesStr msg ''API Key'' then ([m], Inl (ErrorObj msg))
         else contacted m (tryGroqAnalysis_loop critical f (ErrorObj msg) ms))"
    by simp
qed

text \<open>
  The spec's example: of \<open>[A, B]\<close>, A answers 401. And the same list when the body of A's
  answer cannot be read and B answers 404.
\<close>

theorem credential_error_aborts_cascade_witness:
  "tryGroqAnalysis_loop critical
     (\<lambda>m. if m = ''A'' then error_reply 401 ''invalid api key'' else json_reply (JObj []))
     ThrownNull [''A'', ''B''] = ([''A''], Inl (ErrorObj critical))
   \<and> tryGroqAnalysis_loop critical
     (\<lambda>m. if m = ''A''
          then Resolves \<lparr>status = 401, response_text = Inl ''network error'',
                         response_json = Inl ''network error''\<rparr>
          else error_reply 404 ''model not found'')
     ThrownNull [''A'', ''B''] = ([''A'', ''B''], Inl (ErrorObj ''network error''))"
proof -
  let ?f = "\<lambda>m. if m = ''A'' then error_reply 401 ''invalid api key'' else json_reply (JObj [])"
  let ?r = "\<lparr>status = 401, response_text = Inl ''network error'',
             response_json = Inl ''network error''\<rparr>"
  let ?g = "\<lambda>m. if m = ''A'' then Resolves ?r else error_reply 404 ''model not found''"
  have a: "answered 401 (?f ''A'') \<or> answered 403 (?f ''A'')"
    by (simp add: answered_def error_reply_def)
  have c: "''A'' \<in> set (fst (tryGroqAnalysis_loop critical ?f ThrownNull [''A'', ''B'']))"
    by (simp add: error_reply_def try_block_def ok_def critical_def)
  note t = credential_error_aborts_cascade [of "''A''" ?f ThrownNull "[''A'', ''B'']" ?r
      "''network error''"]
  from t [THEN conjunct1] a c
  have 1: "tryGroqAnalysis_loop critical ?f ThrownNull [''A'', ''B'']
             = (takeWhile (\<lambda>x. x \<noteq> ''A'') [''A'', ''B''] @ [''A''], Inl (ErrorObj critical))"
    by blast
  have g: "?g ''A'' = Resolves ?r \<and> (status ?r = 401 \<or> status ?r = 403)
             \<and> response_text ?r = Inl ''network error''"
    by simp
  note u = credential_error_aborts_cascade [of "''A''" ?g ThrownNull "[''B'']" ?r
      "''network error''"]
  from u [THEN conjunct2] g
  have "tryGroqAnalysis_loop critical ?g ThrownNull [''A'', ''B'']
          = (if includesStr ''network error'' ''API Key'' then ([''A''], Inl (ErrorObj ''network error''))
             else contacted ''A''
               (tryGroqAnalysis_loop critical ?g (ErrorObj ''network error'') [''B'']))"
    by blast
  then have 2: "tryGroqAnalysis_loop critical ?g ThrownNull [''A'', ''B'']
          = ([''A'', ''B''], Inl (ErrorObj ''network error''))"
    by (simp add: contacted_def try_block_def ok_def error_reply_def)
  from 1 2 show ?thesis
    by simp
qed




text \<open>
  C6. The code at the failing input: every model answers 404. \<^verbatim>\<open>continue\<close> leaves the
  \<^verbatim>\<open>try\<close> block without entering \<^verbatim>\<open>catch\<close>, so \<^verbatim>\<open>lastError\<close> is never assigned, and after
  the three requests the function throws its initial value, \<^verbatim>\<open>null\<close>
  (\<^verbatim>\<open>src/geminiService.ts\<close> and \<^verbatim>\<open>part_001\<close>).
\<close>

theorem exhausted_cascade_throws_null:
  "tryGroqAnalysis (\<lambda>m. error_reply 404 ''model not found'') = (VISION_MODELS, Inl ThrownNull)
   \<and> tryGroqAnalysis_part_001 (\<lambda>m. error_reply 404 ''model not found'')
       = (VISION_MODELS_part_001, Inl ThrownNull)"
  by (simp add: tryGroqAnalysis_def tryGroqAnalysis_part_001_def loop_all_skipped
      answered_def error_reply_def)

section \<open>analyzeSkinImage: the promise\<close>

text \<open>
  C1. The code at the failing input: the key is configured and every model answers 404.
  The cascade throws \<^verbatim>\<open>null\<close>, the \<^verbatim>\<open>catch\<close> block of \<^verbatim>\<open>analyzeSkinImage\<close> reads
  \<^verbatim>\<open>error.message\<close> of it, and the TypeError of that read leaves the function: the promise
  rejects, in each of the three files, whatever the image.
\<close>

theorem analyzeSkinImage_rejects_when_models_unavailable:
  "analyzeSkinImage models_unavailable base64Image
     = Inl (ErrorObj ''Cannot read properties of null (reading message)'')
   \<and> analyzeSkinImage_part_000 models_unavailable base64Image
     = Inl (ErrorObj ''Cannot read properties of null (reading message)'')
   \<and> analyzeSkinImage_part_001 models_unavailable base64Image
     = Inl (ErrorObj ''Cannot read properties of null (reading message)'')"
  by (simp add: analyzeSkinImage_def analyzeSkinImage_part_000_def analyzeSkinImage_part_001_def
      try_analysis_def try_analysis_part_000_def try_analysis_part_001_def
      tryGroqAnalysis_def tryGroqAnalysis_part_000_def tryGroqAnalysis_part_001_def
      loop_all_skipped answered_def error_reply_def models_unavailable_def bind_def
      catch_analysis_def catch_analysis_part_000_def)

subsection \<open>The only rejection\<close>

lemma get_not_null: "get v k \<noteq> Inl ThrownNull"
  by (cases v) simp_all

lemma get_index_not_null: "get_index v i \<noteq> Inl ThrownNull"
  by (cases v) simp_all

lemma set_prop_not_null: "set_prop w k v \<noteq> Inl ThrownNull"
  by (cases w) simp_all

lemma bind_null:
  "bind m f = Inl ThrownNull \<longleftrightarrow> m = Inl ThrownNull \<or> (\<exists>v. m = Inr v \<and> f v = Inl ThrownNull)"
  by (cases m) (simp_all add: bind_def)

lemmas not_null = bind_null get_not_null get_index_not_null set_prop_not_null

lemma parse_reply_not_null: "parse_reply parse data \<noteq> Inl ThrownNull"
  by (simp add: parse_reply_def not_null split: sum.split)

lemma on_result_not_null: "on_result result \<noteq> Inl ThrownNull"
  by (simp add: on_result_def not_null)

lemma no_reasons_not_null: "no_reasons result \<noteq> Inl ThrownNull"
  by (simp add: no_reasons_def not_null)

lemma on_result_part_000_not_null: "on_result_part_000 result \<noteq> Inl ThrownNull"
  by (simp add: on_result_part_000_def not_null no_reasons_not_null)

lemma backfill_not_null: "backfill k d result \<noteq> Inl ThrownNull"
  by (simp add: backfill_def optional_length_def not_null)

lemma on_result_part_001_not_null: "on_result_part_001 result \<noteq> Inl ThrownNull"
  by (simp add: on_result_part_001_def not_null backfill_not_null)

lemma catch_analysis_rejects:
  "catch_analysis error = Inl x \<Longrightarrow> error = ThrownNull"
  "catch_analysis_part_000 error = Inl x \<Longrightarrow> error = ThrownNull"
  by (cases error; simp add: catch_analysis_def catch_analysis_part_000_def)+

text \<open>
  The promise rejects only after the cascade has thrown \<^verbatim>\<open>null\<close>, that is, only when every
  model of the list ended its attempt in \<^verbatim>\<open>continue\<close> (a 400 or 404 with a readable body).
\<close>

lemma analyzeSkinImage_rejects_only_after_null:
  assumes "analyzeSkinImage e base64Image = Inl x"
  shows "\<forall>m\<in>set VISION_MODELS.
           try_block critical (fetch e (compressImage e base64Image 1024) m) = Continue"
proof -
  from assms have "try_analysis e (compressImage e base64Image 1024) = Inl ThrownNull"
    by (auto simp: analyzeSkinImage_def split: if_splits sum.splits dest: catch_analysis_rejects)
  then have "snd (tryGroqAnalysis (fetch e (compressImage e base64Image 1024))) = Inl ThrownNull"
    by (simp add: try_analysis_def bind_null parse_reply_not_null on_result_not_null)
  then show ?thesis
    unfolding tryGroqAnalysis_def by (blast dest: loop_null)
qed

lemma analyzeSkinImage_part_000_rejects_only_after_null:
  assumes "analyzeSkinImage_part_000 e base64Image = Inl x"
  shows "\<forall>m\<in>set VISION_MODELS_part_000.
           try_block critical_restricted (fetch e (compressImage e base64Image 1024) m) = Continue"
proof -
  from assms have "try_analysis_part_000 e (compressImage e base64Image 1024) = Inl ThrownNull"
    by (auto simp: analyzeSkinImage_part_000_def split: if_splits sum.splits
        dest: catch_analysis_rejects)
  then have "snd (tryGroqAnalysis_part_000 (fetch e (compressImage e base64Image 1024)))
               = Inl ThrownNull"
    by (simp add: try_analysis_part_000_def bind_null parse_reply_not_null
        on_result_part_000_not_null)
  then show ?thesis
    unfolding tryGroqAnalysis_part_000_def by (blast dest: loop_null)
qed

lemma analyzeSkinImage_part_001_rejects_only_after_null:
  assumes "analyzeSkinImage_part_001 e base64Image = Inl x"
  shows "\<forall>m\<in>set VISION_MODELS_part_001.
           try_block critical_restricted (fetch e (compressImage e base64Image 1024) m) = Continue"
proof -
  from assms have "try_analysis_part_001 e (compressImage e base64Image 1024) = Inl ThrownNull"
    by (auto simp: analyzeSkinImage_part_001_def split: if_splits sum.splits
        dest: catch_analysis_rejects)
  then have "snd (tryGroqAnalysis_part_001 (fetch e (compressImage e base64Image 1024)))
               = Inl ThrownNull"
    by (simp add: try_analysis_part_001_def bind_null parse_reply_not_null
        on_result_part_001_not_null)
  then show ?thesis
    unfolding tryGroqAnalysis_part_001_def by (blast dest: loop_null)
qed

section \<open>compressImage: the size of the canvas\<close>

lemma Math_round_quotient:
  assumes "0 < b"
  shows "Math_round (real a / real b) = int ((2 * a + b) div (2 * b))"
proof -
  have "real a / real b + 1 / 2 = real (2 * a + b) / real (2 * b)"
    using assms by (simp add: field_simps)
  then have "Math_round (real a / real b) = \<lfloor>real (2 * a + b) / real (2 * b)\<rfloor>"
    by (simp add: Math_round_def)
  also have "\<dots> = int ((2 * a + b) div (2 * b))"
    by (rule floor_divide_of_nat_eq)
  finally show ?thesis .
qed

lemma Math_round_round: "Math_round x = round x"
  by (simp add: Math_round_def round_def)

text \<open>
  C9. For an image that decodes, with natural width \<open>w\<close> and height \<open>h\<close>, the function
  returns the encoding of a canvas whose size is that of the resize rule: when \<open>w\<close> exceeds
  \<open>maxWidth\<close> the width is \<open>maxWidth\<close> and the height is \<open>h * maxWidth / w\<close> rounded to the
  nearest integer; otherwise the size is the image's own. A 2048-wide image with
  \<open>maxWidth = 1024\<close> gets width 1024 and half its height, rounded (a half goes up).
\<close>

theorem compressImage_canvas_size:
  assumes "load e (img_src base64Str) = Some (w, h)"
  shows "compressImage e base64Str maxWidth
           = toDataURL e (img_src base64Str)
               (fst (canvas_size maxWidth w h)) (snd (canvas_size maxWidth w h))
       \<and> (maxWidth < w \<longrightarrow>
            canvas_size maxWidth w h = (maxWidth, nat (round (real (h * maxWidth) / real w))))
       \<and> (w \<le> maxWidth \<longrightarrow> canvas_size maxWidth w h = (w, h))
       \<and> canvas_size 1024 2048 h = (1024, (h + 1) div 2)"
proof (intro conjI impI)
  show "compressImage e base64Str maxWidth
           = toDataURL e (img_src base64Str)
               (fst (canvas_size maxWidth w h)) (snd (canvas_size maxWidth w h))"
    using assms by (simp add: compressImage_def)
next
  assume "maxWidth < w"
  then show "canvas_size maxWidth w h = (maxWidth, nat (round (real (h * maxWidth) / real w)))"
    by (simp add: canvas_size_def Math_round_round)
next
  assume "w \<le> maxWidth"
  then show "canvas_size maxWidth w h = (w, h)"
    by (simp add: canvas_size_def)
next
  have "Math_round (real (h * 1024) / real 2048) = int ((2 * (h * 1024) + 2048) div (2 * 2048))"
    by (rule Math_round_quotient) simp
  also have "(2 * (h * 1024) + 2048) div (2 * 2048) = (2048 * (h + 1)) div (2048 * 2)"
    by simp
  also have "\<dots> = (h + 1) div 2"
    by (rule div_mult_mult1) simp
  finally have "nat (Math_round (real (h * 1024) / real 2048)) = (h + 1) div 2"
    by simp
  then show "canvas_size 1024 2048 h = (1024, (h + 1) div 2)"
    unfolding canvas_size_def by simp
qed

theorem compressImage_canvas_size_witness:
  "compressImage wide_image ''abc'' 1024 = ''1024x501''"
proof -
  have l: "load wide_image (img_src ''abc'') = Some (2048, 1001)"
    by (simp add: wide_image_def)
  note t = compressImage_canvas_size [OF l, of 1024]
  have "canvas_size 1024 2048 1001 = (1024, 501)"
    using t [THEN conjunct2, THEN conjunct2, THEN conjunct2] by simp
  then show ?thesis
    using t [THEN conjunct1] by (simp add: wide_image_def)
qed

section \<open>Properties: reading after writing, names and indices\<close>

lemma lookup_upd: "lookup (upd k v ps) k' = (if k' = k then v else lookup ps k')"
  by (induction ps) (auto simp: lookup_def)

lemma digit_in: "d < 10 \<Longrightarrow> digit d \<in> set ''0123456789''"
  unfolding digit_def by (rule nth_mem) simp

lemma show_nat_digits: "set (show_nat n) \<subseteq> set ''0123456789''"
proof (induction n rule: show_nat.induct)
  case (1 n)
  show ?case
  proof (cases "n < 10")
    case True
    then show ?thesis
      using digit_in [of n] by (subst show_nat.simps) simp
  next
    case False
    have "digit (n mod 10) \<in> set ''0123456789''"
      by (rule digit_in) simp
    with False 1 show ?thesis
      by (subst show_nat.simps) simp
  qed
qed

text \<open>A key with a character that is no digit is no index.\<close>

lemma not_index: "k \<noteq> [] \<Longrightarrow> hd k \<notin> set ''0123456789'' \<Longrightarrow> k \<noteq> show_nat i"
proof
  assume k: "k \<noteq> []" and h: "hd k \<notin> set ''0123456789''" and e: "k = show_nat i"
  from k have "hd k \<in> set k" by simp
  with e show_nat_digits [of i] have "hd k \<in> set ''0123456789''" by blast
  with h show False by contradiction
qed

lemma lookup_index_keys:
  assumes "\<And>i. k \<noteq> show_nat i" and "length xs = n"
  shows "lookup (zip (map show_nat [0..<n]) xs @ ps) k = lookup ps k"
proof -
  have "k \<notin> set (map show_nat [0..<n])"
    using assms(1) by auto
  then have "map_of (zip (map show_nat [0..<n]) xs) k = None"
    using assms(2) by (subst map_of_zip_is_None) simp_all
  then show ?thesis
    by (simp add: lookup_def map_add_def)
qed

text \<open>A name read from a value is what the spread of the value holds under it.\<close>

lemma lookup_spread:
  assumes "get result k = Inr v" and "v \<noteq> JUndefined" and "k \<noteq> ''length''" and "\<And>i. k \<noteq> show_nat i"
  shows "lookup (spread result) k = v"
  using assms by (cases result) (auto simp: lookup_index_keys)

lemma get_set_prop:
  "set_prop result k v = Inr result' \<Longrightarrow> k' \<noteq> ''length'' \<Longrightarrow>
   get result' k' = Inr (if k' = k then v else (case get result k' of Inr w \<Rightarrow> w | Inl e \<Rightarrow> JUndefined))"
  by (cases result) (auto simp: lookup_upd)

section \<open>analyzeSkinImage: the records without a reply\<close>

lemma key_missing_four: "key_missing = four_fields ''Error'' ''Key Missing''"
  by (simp add: key_missing_def literal_def four_fields_def)

lemma catch_analysis_four:
  "catch_analysis (ErrorObj msg) = Inr (four_fields ''Analysis Error'' msg)"
  by (simp add: catch_analysis_def literal_def four_fields_def)

text \<open>
  C10. With no key configured, each of the three files returns the record with the four
  properties \<^verbatim>\<open>isSkin\<close>, \<^verbatim>\<open>isHealthy\<close>, \<^verbatim>\<open>diseaseName\<close> and \<^verbatim>\<open>description\<close>. With a key, when
  the \<^verbatim>\<open>try\<close> block throws an error object, \<^verbatim>\<open>src/geminiService.ts\<close> and \<^verbatim>\<open>part_001\<close> return
  such a record too, the description being the message of the error. Such a record has
  those four keys and no other: reading \<^verbatim>\<open>symptoms\<close>, \<^verbatim>\<open>reasons\<close>, \<^verbatim>\<open>precautions\<close>,
  \<^verbatim>\<open>prevention\<close>, \<^verbatim>\<open>treatments\<close>, \<^verbatim>\<open>medicines\<close> or \<^verbatim>\<open>healingPeriod\<close> gives \<^verbatim>\<open>undefined\<close>, and the
  record does not have the shape that \<^verbatim>\<open>interface SkinAnalysis\<close> declares.
\<close>

theorem fallback_records_hold_four_fields:
  "(falsy (GROQ_API_KEY e) \<longrightarrow>
      analyzeSkinImage e base64Image = Inr (four_fields ''Error'' ''Key Missing'')
      \<and> analyzeSkinImage_part_000 e base64Image = Inr (four_fields ''Error'' ''Key Missing'')
      \<and> analyzeSkinImage_part_001 e base64Image = Inr (four_fields ''Error'' ''Key Missing''))
   \<and> (\<not> falsy (GROQ_API_KEY e)
        \<and> try_analysis e (compressImage e base64Image 1024) = Inl (ErrorObj msg) \<longrightarrow>
      analyzeSkinImage e base64Image = Inr (four_fields ''Analysis Error'' msg))
   \<and> (\<not> falsy (GROQ_API_KEY e)
        \<and> try_analysis_part_001 e (compressImage e base64Image 1024) = Inl (ErrorObj msg) \<longrightarrow>
      analyzeSkinImage_part_001 e base64Image = Inr (four_fields ''Analysis Error'' msg))
   \<and> own_keys (four_fields name description)
        = [''isSkin'', ''isHealthy'', ''diseaseName'', ''description'']
   \<and> (k \<in> {''symptoms'', ''reasons'', ''precautions'', ''prevention'', ''treatments'',
             ''medicines'', ''healingPeriod''} \<longrightarrow>
        get (four_fields name description) k = Inr JUndefined)
   \<and> \<not> is_SkinAnalysis (four_fields name description)"
proof (intro conjI impI)
  show "\<not> is_SkinAnalysis (four_fields name description)"
    by (simp add: is_SkinAnalysis_def four_fields_def lookup_def is_points_def)
next
  assume "k \<in> {''symptoms'', ''reasons'', ''precautions'', ''prevention'', ''treatments'',
             ''medicines'', ''healingPeriod''}"
  then show "get (four_fields name description) k = Inr JUndefined"
    by (auto simp: four_fields_def lookup_def)
qed (simp_all add: analyzeSkinImage_def analyzeSkinImage_part_000_def
      analyzeSkinImage_part_001_def key_missing_four catch_analysis_four own_keys_def
      four_fields_def)

text \<open>No key; and a key with no network, where the cascade throws the error of the last fetch.\<close>

theorem fallback_records_hold_four_fields_witness:
  "analyzeSkinImage no_key ''abc'' = Inr (four_fields ''Error'' ''Key Missing'')
   \<and> analyzeSkinImage offline ''abc'' = Inr (four_fields ''Analysis Error'' ''Failed to fetch'')
   \<and> analyzeSkinImage_part_001 offline ''abc''
       = Inr (four_fields ''Analysis Error'' ''Failed to fetch'')
   \<and> get (four_fields ''Error'' ''Key Missing'') ''reasons'' = Inr JUndefined"
proof -
  have a: "try_analysis offline (compressImage offline ''abc'' 1024) = Inl (ErrorObj ''Failed to fetch'')"
    by (simp add: try_analysis_def tryGroqAnalysis_def VISION_MODELS_def try_block_def
        offline_def models_unavailable_def bind_def contacted_def)
  have b: "try_analysis_part_001 offline (compressImage offline ''abc'' 1024)
             = Inl (ErrorObj ''Failed to fetch'')"
    by (simp add: try_analysis_part_001_def tryGroqAnalysis_part_001_def
        VISION_MODELS_part_001_def try_block_def
        offline_def models_unavailable_def bind_def contacted_def)
  have k: "\<not> falsy (GROQ_API_KEY offline)"
    by (simp add: offline_def models_unavailable_def)
  have n: "falsy (GROQ_API_KEY no_key)"
    by (simp add: no_key_def)
  show ?thesis
    using fallback_records_hold_four_fields [of no_key "''abc''" "''Failed to fetch''"
        "''Error''" "''Key Missing''" "''reasons''"]
      fallback_records_hold_four_fields [of offline "''abc''" "''Failed to fetch''"
        "''Error''" "''Key Missing''" "''reasons''"]
      a b k n
    by simp
qed

section \<open>analyzeSkinImage: the parsed reply\<close>

lemma name_not_index:
  "''isSkin'' \<noteq> show_nat i" "''isHealthy'' \<noteq> show_nat i" "''reasons'' \<noteq> show_nat i"
  "''symptoms'' \<noteq> show_nat i" "''precautions'' \<noteq> show_nat i" "''prevention'' \<noteq> show_nat i"
  "''treatments'' \<noteq> show_nat i"
  by (rule not_index; simp)+

lemma get_literal: "get (literal base named) k = Inr (lookup (foldl (\<lambda>ps kv. upd (fst kv) (snd kv) ps) base named) k)"
  by (simp add: literal_def)

lemma isSkin_spread:
  "get result ''isSkin'' = Inr (JBool False) \<Longrightarrow> lookup (spread result) ''isSkin'' = JBool False"
  by (rule lookup_spread) (simp_all add: name_not_index)

lemma on_result_cases:
  assumes "on_result result = Inr r"
  shows "(get r ''isSkin'' = Inr (JBool False) \<and> get r ''isHealthy'' = Inr (JBool False))
       \<or> (get r ''isSkin'' \<noteq> Inr (JBool False) \<and> r = result)"
proof (cases "get result ''isSkin''")
  case (Inl e)
  with assms show ?thesis
    by (simp add: on_result_def bind_def)
next
  case (Inr s)
  show ?thesis
  proof (cases "s = JBool False")
    case True
    with Inr have "lookup (spread result) ''isSkin'' = JBool False"
      by (simp add: isSkin_spread)
    with assms Inr True show ?thesis
      by (auto simp: on_result_def bind_def get_literal lookup_upd)
  next
    case False
    with assms Inr show ?thesis
      by (auto simp: on_result_def bind_def)
  qed
qed

lemma get_object:
  assumes "get result k = Inr (JBool b)"
  shows "(\<exists>ps. result = JObj ps) \<or> (\<exists>xs ps. result = JArr xs ps)"
  using assms by (cases result) (auto split: if_splits)

lemma get_defined:
  assumes "(\<exists>ps. result = JObj ps) \<or> (\<exists>xs ps. result = JArr xs ps)"
  shows "\<exists>w. get result k = Inr w"
  using assms by auto

lemma present_length:
  assumes "\<not> falsy v"
  shows "\<exists>n. get v ''length'' = Inr n \<and> (n \<noteq> JNum 0 \<longrightarrow> present v)"
  using assms by (cases v) (auto simp: present_def)

lemma present_scan_failed: "present scan_failed"
  by (simp add: present_def scan_failed_def)

text \<open>After the repair of \<^verbatim>\<open>reasons\<close>, the value is still an object, with \<^verbatim>\<open>reasons\<close> present.\<close>

lemma reasons_ensured:
  assumes "get result ''isSkin'' = Inr (JBool False)"
  shows "\<exists>result' v.
           bind (no_reasons result)
             (\<lambda>none. if none then set_prop result ''reasons'' scan_failed else Inr result)
             = Inr result'
           \<and> get result' ''isSkin'' = Inr (JBool False)
           \<and> get result' ''reasons'' = Inr v \<and> present v"
proof -
  from assms get_object have obj: "(\<exists>ps. result = JObj ps) \<or> (\<exists>xs ps. result = JArr xs ps)"
    by blast
  then obtain rs where rs: "get result ''reasons'' = Inr rs"
    using get_defined by blast
  from obj obtain result' where set: "set_prop result ''reasons'' scan_failed = Inr result'"
    by auto
  from set assms have skin': "get result' ''isSkin'' = Inr (JBool False)"
    by (simp add: get_set_prop)
  from set have reasons': "get result' ''reasons'' = Inr scan_failed"
    by (simp add: get_set_prop)
  show ?thesis
  proof (cases "falsy rs")
    case True
    then show ?thesis
      using rs set skin' reasons' present_scan_failed
      by (simp add: no_reasons_def bind_def)
  next
    case False
    then obtain n where n: "get rs ''length'' = Inr n" and p: "n \<noteq> JNum 0 \<longrightarrow> present rs"
      using present_length by blast
    show ?thesis
    proof (cases "n = JNum 0")
      case True
      then show ?thesis
        using rs False n set skin' reasons' present_scan_failed
        by (simp add: no_reasons_def bind_def)
    next
      case nonzero: False
      then show ?thesis
        using rs False n p assms
        by (simp add: no_reasons_def bind_def)
    qed
  qed
qed

lemma on_result_part_000_cases:
  assumes "on_result_part_000 result = Inr r"
  shows "(get r ''isSkin'' = Inr (JBool False) \<and> get r ''isHealthy'' = Inr (JBool False)
          \<and> (\<exists>v. get r ''reasons'' = Inr v \<and> present v))
       \<or> (get r ''isSkin'' \<noteq> Inr (JBool False) \<and> r = result)"
proof (cases "get result ''isSkin''")
  case (Inl e)
  with assms show ?thesis
    by (simp add: on_result_part_000_def bind_def)
next
  case (Inr s)
  show ?thesis
  proof (cases "s = JBool False")
    case False
    with assms Inr show ?thesis
      by (auto simp: on_result_part_000_def bind_def)
  next
    case True
    with Inr reasons_ensured obtain result' v where
      step: "bind (no_reasons result)
             (\<lambda>none. if none then set_prop result ''reasons'' scan_failed else Inr result)
             = Inr result'"
      and skin: "get result' ''isSkin'' = Inr (JBool False)"
      and reasons: "get result' ''reasons'' = Inr v" and v: "present v"
      by blast
    from skin have s1: "lookup (spread result') ''isSkin'' = JBool False"
      by (rule isSkin_spread)
    from v have "v \<noteq> JUndefined"
      by (auto simp: present_def)
    with reasons have s2: "lookup (spread result') ''reasons'' = v"
      by (intro lookup_spread) (simp_all add: name_not_index)
    from skin get_object have obj: "(\<exists>ps. result' = JObj ps) \<or> (\<exists>xs ps. result' = JArr xs ps)"
      by blast
    obtain w1 w2 w3 w4 where w: "get result' ''diseaseName'' = Inr w1"
      "get result' ''description'' = Inr w2" "get result' ''symptoms'' = Inr w3"
      "get result' ''precautions'' = Inr w4"
      using get_defined [OF obj] by metis
    have "on_result_part_000 result = 
           Inr (literal (spread result')
             [(''isHealthy'', JBool False),
              (''diseaseName'', or_else w1 (JStr ''No Skin Detected'')),
              (''description'', or_else w2 (JStr ''The analysis could not identify human skin.'')),
              (''symptoms'', or_else w3 (JArr [] [])),
              (''treatments'', JArr [] []),
              (''medicines'', JArr [] []),
              (''precautions'', or_else w4 (JArr [] [])),
              (''prevention'', JArr [] [])])"
      using Inr True step w
      by (cases "no_reasons result") (simp_all add: on_result_part_000_def bind_def)
    with assms have "r = literal (spread result')
             [(''isHealthy'', JBool False),
              (''diseaseName'', or_else w1 (JStr ''No Skin Detected'')),
              (''description'', or_else w2 (JStr ''The analysis could not identify human skin.'')),
              (''symptoms'', or_else w3 (JArr [] [])),
              (''treatments'', JArr [] []),
              (''medicines'', JArr [] []),
              (''precautions'', or_else w4 (JArr [] [])),
              (''prevention'', JArr [] [])]"
      by simp
    with s1 s2 v show ?thesis
      by (simp add: get_literal lookup_upd)
  qed
qed

lemma bind_InrE:
  assumes "bind m f = Inr r"
  obtains v where "m = Inr v" and "f v = Inr r"
  using assms by (cases m) (simp_all add: bind_def)

lemma set_prop_object:
  assumes "set_prop result k v = Inr result'"
  shows "(\<exists>ps. result = JObj ps) \<or> (\<exists>xs ps. result = JArr xs ps)"
  using assms by (cases result) auto

lemma optional_length_present:
  assumes "optional_length v = Inr n" and "\<not> falsy n"
  shows "present v"
  using assms by (cases v) (auto simp: optional_length_def present_def split: if_splits)

lemma backfill_cases:
  assumes "backfill k d result = Inr result'" and "k \<noteq> ''length''" and "present d"
  shows "filled result' k"
    and "k' \<noteq> k \<Longrightarrow> k' \<noteq> ''length'' \<Longrightarrow> get result' k' = get result k'"
proof -
  from assms(1) obtain v n where v: "get result k = Inr v" and n: "optional_length v = Inr n"
    and r: "(if falsy n then set_prop result k d else Inr result) = Inr result'"
    unfolding backfill_def by (elim bind_InrE)
  show "filled result' k"
  proof (cases "falsy n")
    case True
    with r assms(2,3) show ?thesis
      by (simp add: get_set_prop filled_def)
  next
    case False
    with r v n show ?thesis
      by (simp add: optional_length_present filled_def)
  qed
  show "get result' k' = get result k'" if "k' \<noteq> k" and "k' \<noteq> ''length''"
  proof (cases "falsy n")
    case True
    with r have s: "set_prop result k d = Inr result'"
      by simp
    from get_defined [OF set_prop_object [OF s]] obtain w where "get result k' = Inr w"
      by blast
    with s that show ?thesis
      by (simp add: get_set_prop)
  next
    case False
    with r show ?thesis by simp
  qed
qed

lemma four_backfills:
  assumes "bind (backfill k1 d1 result) (\<lambda>r1. bind (backfill k2 d2 r1) (\<lambda>r2.
             bind (backfill k3 d3 r2) (\<lambda>r3. bind (backfill k4 d4 r3) f))) = Inr r"
      and "distinct [k1, k2, k3, k4, ''length'']"
      and "present d1" and "present d2" and "present d3" and "present d4"
  obtains r4 where "f r4 = Inr r"
      and "filled r4 k1" and "filled r4 k2" and "filled r4 k3" and "filled r4 k4"
      and "\<And>k'. k' \<notin> {k1, k2, k3, k4, ''length''} \<Longrightarrow> get r4 k' = get result k'"
proof -
  from assms(1) obtain r1 r2 r3 r4 where b1: "backfill k1 d1 result = Inr r1"
    and b2: "backfill k2 d2 r1 = Inr r2" and b3: "backfill k3 d3 r2 = Inr r3"
    and b4: "backfill k4 d4 r3 = Inr r4" and f: "f r4 = Inr r"
    by (elim bind_InrE)
  from assms(2) have ne: "k1 \<noteq> ''length''" "k2 \<noteq> ''length''" "k3 \<noteq> ''length''"
    "k4 \<noteq> ''length''" "k1 \<noteq> k2" "k1 \<noteq> k3" "k1 \<noteq> k4" "k2 \<noteq> k3" "k2 \<noteq> k4" "k3 \<noteq> k4"
    by auto
  have "filled r1 k1"
    using b1 ne(1) assms(3) by (rule backfill_cases(1))
  then have "filled r4 k1"
    using backfill_cases(2) [OF b2 ne(2) assms(4), of k1]
      backfill_cases(2) [OF b3 ne(3) assms(5), of k1]
      backfill_cases(2) [OF b4 ne(4) assms(6), of k1] ne
    by (simp add: filled_def)
  moreover have "filled r2 k2"
    using b2 ne(2) assms(4) by (rule backfill_cases(1))
  then have "filled r4 k2"
    using backfill_cases(2) [OF b3 ne(3) assms(5), of k2]
      backfill_cases(2) [OF b4 ne(4) assms(6), of k2] ne
    by (simp add: filled_def)
  moreover have "filled r3 k3"
    using b3 ne(3) assms(5) by (rule backfill_cases(1))
  then have "filled r4 k3"
    using backfill_cases(2) [OF b4 ne(4) assms(6), of k3] ne
    by (simp add: filled_def)
  moreover have "filled r4 k4"
    using b4 ne(4) assms(6) by (rule backfill_cases(1))
  moreover have "get r4 k' = get result k'" if "k' \<notin> {k1, k2, k3, k4, ''length''}" for k'
    using that backfill_cases(2) [OF b1 ne(1) assms(3), of k']
      backfill_cases(2) [OF b2 ne(2) assms(4), of k']
      backfill_cases(2) [OF b3 ne(3) assms(5), of k']
      backfill_cases(2) [OF b4 ne(4) assms(6), of k']
    by simp
  ultimately show thesis
    using f that by blast
qed

lemma present_strings: "xs \<noteq> [] \<Longrightarrow> present (strings xs)"
  by (simp add: present_def strings_def)

lemma on_result_part_001_cases:
  assumes "on_result_part_001 result = Inr r"
  shows "(get r ''isSkin'' = Inr (JBool False) \<and> get r ''isHealthy'' = Inr (JBool False)
          \<and> get r ''reasons'' = Inr (strings [''Camera not focused'', ''Object is too far'', ''Shadows obscuring details''])
          \<and> get r ''precautions'' = Inr (strings [''Use natural lighting'', ''Hold camera steady'', ''Focus on the skin area'']))
       \<or> (get r ''isSkin'' \<noteq> Inr (JBool False)
          \<and> filled r ''symptoms'' \<and> filled r ''reasons''
          \<and> filled r ''precautions'' \<and> filled r ''prevention''
          \<and> get r ''treatments'' = get result ''treatments'')"
  using assms unfolding on_result_part_001_def
proof (rule four_backfills)
  show "distinct [''symptoms'', ''reasons'', ''precautions'', ''prevention'', ''length'']"
    by simp
  show "present (strings [''No critical symptoms detected.'', ''Standard skin texture observed.''])"
    by (simp add: present_strings)
  show "present (strings [''Genetics'', ''Environmental factors'', ''Lifestyle choices''])"
    by (simp add: present_strings)
  show "present defaultAdvice" "present defaultAdvice"
    by (simp_all add: present_strings defaultAdvice_def)
next
  fix r4
  assume f: "bind (get r4 ''isSkin'') (\<lambda>isSkin.
       if isSkin = JBool False then
         Inr (literal (spread r4)
           [(''isHealthy'', JBool False),
            (''diseaseName'', JStr ''No Skin Detected''),
            (''description'', JStr ''The AI could not clearly identify human skin. This may be due to lighting, blur, or the object not being skin.''),
            (''symptoms'', strings [''Image blur'', ''Poor lighting'', ''Non-skin object'']),
            (''reasons'', strings [''Camera not focused'', ''Object is too far'', ''Shadows obscuring details'']),
            (''precautions'', strings [''Use natural lighting'', ''Hold camera steady'', ''Focus on the skin area''])])
       else Inr r4) = Inr r"
    and p: "filled r4 ''symptoms''" "filled r4 ''reasons''"
      "filled r4 ''precautions''" "filled r4 ''prevention''"
    and frame: "\<And>k'. k' \<notin> {''symptoms'', ''reasons'', ''precautions'', ''prevention'', ''length''}
                 \<Longrightarrow> get r4 k' = get result k'"
  show ?thesis
  proof (cases "get r4 ''isSkin''")
    case (Inl e)
    with f show ?thesis by (simp add: bind_def)
  next
    case (Inr s)
    show ?thesis
    proof (cases "s = JBool False")
      case True
      with Inr have "lookup (spread r4) ''isSkin'' = JBool False"
        by (simp add: isSkin_spread)
      with f Inr True show ?thesis
        by (auto simp: bind_def get_literal lookup_upd)
    next
      case False
      have "get r4 ''treatments'' = get result ''treatments''"
        by (rule frame) simp
      with False f Inr p show ?thesis
        by (auto simp: bind_def)
    qed
  qed
qed

section \<open>analyzeSkinImage: every path\<close>

lemmas run_defs =
  try_analysis_def try_analysis_part_000_def try_analysis_part_001_def
  tryGroqAnalysis_def tryGroqAnalysis_part_000_def tryGroqAnalysis_part_001_def
  VISION_MODELS_def VISION_MODELS_part_000_def VISION_MODELS_part_001_def
  try_block_def ok_def json_reply_def parse_reply_def bind_def compressImage_def
  replying_def reply_body_def literal_def strings_def lookup_def

lemma replying_gemini:
  "analyzeSkinImage (replying result) ''abc'' = 
     (case on_result result of Inr v \<Rightarrow> Inr v | Inl error \<Rightarrow> catch_analysis error)"
  by (simp add: analyzeSkinImage_def run_defs)

lemma replying_part_000:
  "analyzeSkinImage_part_000 (replying result) ''abc'' = 
     (case on_result_part_000 result of Inr v \<Rightarrow> Inr v | Inl error \<Rightarrow> catch_analysis_part_000 error)"
  by (simp add: analyzeSkinImage_part_000_def run_defs)

lemma replying_part_001:
  "analyzeSkinImage_part_001 (replying result) ''abc'' = 
     (case on_result_part_001 result of Inr v \<Rightarrow> Inr v | Inl error \<Rightarrow> catch_analysis error)"
  by (simp add: analyzeSkinImage_part_001_def run_defs)

lemma get_key_missing:
  "get key_missing ''isSkin'' = Inr (JBool False)" "get key_missing ''isHealthy'' = Inr (JBool False)"
  by (simp_all add: key_missing_four four_fields_def lookup_def)

lemma catch_analysis_unhealthy:
  assumes "catch_analysis error = Inr r"
  shows "get r ''isSkin'' = Inr (JBool False) \<and> get r ''isHealthy'' = Inr (JBool False)"
  using assms by (cases error) (auto simp: catch_analysis_def literal_def lookup_def)

lemma catch_analysis_part_000_unhealthy:
  assumes "catch_analysis_part_000 error = Inr r"
  shows "get r ''isSkin'' = Inr (JBool False) \<and> get r ''isHealthy'' = Inr (JBool False)"
  using assms by (cases error) (auto simp: catch_analysis_part_000_def literal_def lookup_def)

text \<open>Where a resolved value comes from: the key check, the parsed reply, or the catch block.\<close>

lemma analyzeSkinImage_paths:
  assumes "analyzeSkinImage e base64Image = Inr r"
  shows "r = key_missing \<or> (\<exists>result. on_result result = Inr r)
       \<or> (\<exists>error. catch_analysis error = Inr r)"
proof (cases "falsy (GROQ_API_KEY e)")
  case True
  with assms show ?thesis by (simp add: analyzeSkinImage_def)
next
  case False
  show ?thesis
  proof (cases "try_analysis e (compressImage e base64Image 1024)")
    case (Inl error)
    with assms False show ?thesis by (auto simp: analyzeSkinImage_def)
  next
    case (Inr v)
    with assms False have "try_analysis e (compressImage e base64Image 1024) = Inr r"
      by (simp add: analyzeSkinImage_def)
    then obtain result where "on_result result = Inr r"
      unfolding try_analysis_def by (elim bind_InrE)
    then show ?thesis by blast
  qed
qed

lemma analyzeSkinImage_part_000_paths:
  assumes "analyzeSkinImage_part_000 e base64Image = Inr r"
  shows "r = key_missing \<or> (\<exists>result. on_result_part_000 result = Inr r)
       \<or> (\<exists>error. catch_analysis_part_000 error = Inr r)"
proof (cases "falsy (GROQ_API_KEY e)")
  case True
  with assms show ?thesis by (simp add: analyzeSkinImage_part_000_def)
next
  case False
  show ?thesis
  proof (cases "try_analysis_part_000 e (compressImage e base64Image 1024)")
    case (Inl error)
    with assms False show ?thesis by (auto simp: analyzeSkinImage_part_000_def)
  next
    case (Inr v)
    with assms False have "try_analysis_part_000 e (compressImage e base64Image 1024) = Inr r"
      by (simp add: analyzeSkinImage_part_000_def)
    then obtain result where "on_result_part_000 result = Inr r"
      unfolding try_analysis_part_000_def by (elim bind_InrE)
    then show ?thesis by blast
  qed
qed

lemma analyzeSkinImage_part_001_paths:
  assumes "analyzeSkinImage_part_001 e base64Image = Inr r"
  shows "r = key_missing \<or> (\<exists>result. on_result_part_001 result = Inr r)
       \<or> (\<exists>error. catch_analysis error = Inr r)"
proof (cases "falsy (GROQ_API_KEY e)")
  case True
  with assms show ?thesis by (simp add: analyzeSkinImage_part_001_def)
next
  case False
  show ?thesis
  proof (cases "try_analysis_part_001 e (compressImage e base64Image 1024)")
    case (Inl error)
    with assms False show ?thesis by (auto simp: analyzeSkinImage_part_001_def)
  next
    case (Inr v)
    with assms False have "try_analysis_part_001 e (compressImage e base64Image 1024) = Inr r"
      by (simp add: analyzeSkinImage_part_001_def)
    then obtain result where "on_result_part_001 result = Inr r"
      unfolding try_analysis_part_001_def by (elim bind_InrE)
    then show ?thesis by blast
  qed
qed

text \<open>
  C2, amended. In each of the three files, a record the function resolves to with
  \<^verbatim>\<open>isSkin === false\<close> has \<^verbatim>\<open>isHealthy === false\<close>. When the record comes from a parsed reply:
  in \<^verbatim>\<open>part_001\<close> its \<^verbatim>\<open>reasons\<close> and \<^verbatim>\<open>precautions\<close> are the fixed lists of three entries;
  in \<^verbatim>\<open>part_000\<close> its \<^verbatim>\<open>reasons\<close> is present (truthy, and not an empty array). Nothing is
  said of \<^verbatim>\<open>reasons\<close> and \<^verbatim>\<open>precautions\<close> in the records of the key check and of the
  \<^verbatim>\<open>catch\<close> block, nor of \<^verbatim>\<open>precautions\<close> in \<^verbatim>\<open>part_000\<close>, nor of either in
  \<^verbatim>\<open>src/geminiService.ts\<close>.
\<close>

theorem rejected_record_is_unhealthy:
  "(analyzeSkinImage e base64Image = Inr r \<and> get r ''isSkin'' = Inr (JBool False) \<longrightarrow>
      get r ''isHealthy'' = Inr (JBool False))
   \<and> (analyzeSkinImage_part_000 e base64Image = Inr r \<and> get r ''isSkin'' = Inr (JBool False) \<longrightarrow>
      get r ''isHealthy'' = Inr (JBool False))
   \<and> (analyzeSkinImage_part_001 e base64Image = Inr r \<and> get r ''isSkin'' = Inr (JBool False) \<longrightarrow>
      get r ''isHealthy'' = Inr (JBool False))
   \<and> (on_result_part_001 result = Inr r \<and> get r ''isSkin'' = Inr (JBool False) \<longrightarrow>
      get r ''reasons''
        = Inr (strings [''Camera not focused'', ''Object is too far'', ''Shadows obscuring details''])
      \<and> get r ''precautions''
        = Inr (strings [''Use natural lighting'', ''Hold camera steady'', ''Focus on the skin area'']))
   \<and> (on_result_part_000 result = Inr r \<and> get r ''isSkin'' = Inr (JBool False) \<longrightarrow>
      filled r ''reasons'')"
proof (intro conjI impI)
  assume "analyzeSkinImage e base64Image = Inr r \<and> get r ''isSkin'' = Inr (JBool False)"
  then show "get r ''isHealthy'' = Inr (JBool False)"
    using analyzeSkinImage_paths [of e base64Image r] on_result_cases catch_analysis_unhealthy
      get_key_missing
    by blast
next
  assume "analyzeSkinImage_part_000 e base64Image = Inr r \<and> get r ''isSkin'' = Inr (JBool False)"
  then show "get r ''isHealthy'' = Inr (JBool False)"
    using analyzeSkinImage_part_000_paths [of e base64Image r] on_result_part_000_cases
      catch_analysis_part_000_unhealthy get_key_missing
    by blast
next
  assume "analyzeSkinImage_part_001 e base64Image = Inr r \<and> get r ''isSkin'' = Inr (JBool False)"
  then show "get r ''isHealthy'' = Inr (JBool False)"
    using analyzeSkinImage_part_001_paths [of e base64Image r] on_result_part_001_cases
      catch_analysis_unhealthy get_key_missing
    by blast
next
  assume a: "on_result_part_001 result = Inr r \<and> get r ''isSkin'' = Inr (JBool False)"
  then show "get r ''reasons''
        = Inr (strings [''Camera not focused'', ''Object is too far'', ''Shadows obscuring details''])"
    using on_result_part_001_cases [of result r] by blast
  from a show "get r ''precautions''
        = Inr (strings [''Use natural lighting'', ''Hold camera steady'', ''Focus on the skin area''])"
    using on_result_part_001_cases [of result r] by blast
next
  assume "on_result_part_000 result = Inr r \<and> get r ''isSkin'' = Inr (JBool False)"
  then show "filled r ''reasons''"
    using on_result_part_000_cases [of result r] by (auto simp: filled_def)
qed

lemmas reply_defs =
  wall_def bare_skin_def not_skin_def on_result_def on_result_part_000_def
  on_result_part_001_def backfill_def optional_length_def no_reasons_def or_else_def
  defaultAdvice_def scan_failed_def bind_def literal_def strings_def lookup_def

text \<open>
  C2, as the claim states it, fails in \<^verbatim>\<open>src/geminiService.ts\<close>: with no network the record
  of the \<^verbatim>\<open>catch\<close> block has \<^verbatim>\<open>isSkin === false\<close> and no \<^verbatim>\<open>reasons\<close>; and when the model
  rejects the image and sends no list, the record returned has neither \<^verbatim>\<open>reasons\<close> nor
  \<^verbatim>\<open>precautions\<close>.
\<close>

theorem rejection_without_reasons:
  "analyzeSkinImage offline ''abc'' = Inr (four_fields ''Analysis Error'' ''Failed to fetch'')
   \<and> get (four_fields ''Analysis Error'' ''Failed to fetch'') ''isSkin'' = Inr (JBool False)
   \<and> get (four_fields ''Analysis Error'' ''Failed to fetch'') ''reasons'' = Inr JUndefined
   \<and> analyzeSkinImage (replying not_skin) ''abc''
       = Inr (JObj [(''isSkin'', JBool False), (''isHealthy'', JBool False),
                    (''diseaseName'', JStr ''No Skin Detected''),
                    (''description'', JStr ''The AI could not identify human skin texture in this image. Please upload a clear, close-up photo of the affected area.'')])"
  by (simp add: analyzeSkinImage_def run_defs offline_def models_unavailable_def contacted_def
      catch_analysis_def four_fields_def not_skin_def on_result_def)

theorem rejected_record_is_unhealthy_witness:
  "(\<exists>r. analyzeSkinImage (replying wall) ''abc'' = Inr r
        \<and> get r ''isSkin'' = Inr (JBool False) \<and> get r ''isHealthy'' = Inr (JBool False))
   \<and> (\<exists>r. analyzeSkinImage_part_000 (replying wall) ''abc'' = Inr r
        \<and> get r ''isSkin'' = Inr (JBool False) \<and> get r ''isHealthy'' = Inr (JBool False))
   \<and> (\<exists>r. analyzeSkinImage_part_001 (replying wall) ''abc'' = Inr r
        \<and> get r ''isSkin'' = Inr (JBool False) \<and> get r ''isHealthy'' = Inr (JBool False))
   \<and> (\<exists>r. on_result_part_001 not_skin = Inr r \<and> get r ''isSkin'' = Inr (JBool False)
        \<and> get r ''reasons''
            = Inr (strings [''Camera not focused'', ''Object is too far'', ''Shadows obscuring details'']))
   \<and> (\<exists>r. on_result_part_000 not_skin = Inr r \<and> get r ''isSkin'' = Inr (JBool False)
        \<and> filled r ''reasons'')"
proof -
  have 1: "\<exists>r. analyzeSkinImage (replying wall) ''abc'' = Inr r \<and> get r ''isSkin'' = Inr (JBool False)"
    by (simp add: replying_gemini reply_defs)
  have 2: "\<exists>r. analyzeSkinImage_part_000 (replying wall) ''abc'' = Inr r
             \<and> get r ''isSkin'' = Inr (JBool False)"
    by (simp add: replying_part_000 reply_defs)
  have 3: "\<exists>r. analyzeSkinImage_part_001 (replying wall) ''abc'' = Inr r
             \<and> get r ''isSkin'' = Inr (JBool False)"
    by (simp add: replying_part_001 reply_defs)
  have 4: "\<exists>r. on_result_part_001 not_skin = Inr r \<and> get r ''isSkin'' = Inr (JBool False)"
    by (simp add: reply_defs)
  have 5: "\<exists>r. on_result_part_000 not_skin = Inr r \<and> get r ''isSkin'' = Inr (JBool False)"
    by (simp add: reply_defs)
  from 1 2 3 4 5 show ?thesis
    using rejected_record_is_unhealthy [of "replying wall" "''abc''" _ not_skin]
    by blast
qed

lemma catch_analysis_not_skin:
  assumes "catch_analysis error = Inr r"
  shows "get r ''isSkin'' \<noteq> Inr (JBool True)"
  using catch_analysis_unhealthy [OF assms] by simp

text \<open>
  C7, amended. In \<^verbatim>\<open>part_001\<close>, a record the function resolves to with \<^verbatim>\<open>isSkin === true\<close>
  has \<^verbatim>\<open>symptoms\<close>, \<^verbatim>\<open>reasons\<close>, \<^verbatim>\<open>precautions\<close> and \<^verbatim>\<open>prevention\<close> present (truthy, and
  not an empty array), while its \<^verbatim>\<open>treatments\<close> is what the parsed reply held, empty or
  missing included. In \<^verbatim>\<open>src/geminiService.ts\<close> and \<^verbatim>\<open>part_000\<close> such a record is the parsed
  reply itself: nothing is backfilled.
\<close>

theorem part_001_backfills_four_lists:
  "(analyzeSkinImage_part_001 e base64Image = Inr r \<and> get r ''isSkin'' = Inr (JBool True) \<longrightarrow>
      filled r ''symptoms'' \<and> filled r ''reasons''
      \<and> filled r ''precautions'' \<and> filled r ''prevention'')
   \<and> (on_result_part_001 result = Inr r \<and> get r ''isSkin'' = Inr (JBool True) \<longrightarrow>
      get r ''treatments'' = get result ''treatments'')
   \<and> (on_result result = Inr r \<and> get r ''isSkin'' = Inr (JBool True) \<longrightarrow> r = result)
   \<and> (on_result_part_000 result = Inr r \<and> get r ''isSkin'' = Inr (JBool True) \<longrightarrow> r = result)"
proof -
  have a: "filled r ''symptoms'' \<and> filled r ''reasons''
      \<and> filled r ''precautions'' \<and> filled r ''prevention''"
    if h: "analyzeSkinImage_part_001 e base64Image = Inr r" "get r ''isSkin'' = Inr (JBool True)"
  proof -
    from analyzeSkinImage_part_001_paths [OF h(1)] h(2) obtain res
      where "on_result_part_001 res = Inr r"
      using get_key_missing(1) catch_analysis_not_skin by fastforce
    from on_result_part_001_cases [OF this] h(2) show ?thesis
      by simp
  qed
  have b: "get r ''treatments'' = get result ''treatments''"
    if "on_result_part_001 result = Inr r" "get r ''isSkin'' = Inr (JBool True)"
    using on_result_part_001_cases [OF that(1)] that(2) by simp
  have c: "r = result" if "on_result result = Inr r" "get r ''isSkin'' = Inr (JBool True)"
    using on_result_cases [OF that(1)] that(2) by simp
  have d: "r = result" if "on_result_part_000 result = Inr r" "get r ''isSkin'' = Inr (JBool True)"
    using on_result_part_000_cases [OF that(1)] that(2) by simp
  from a b c d show ?thesis
    by blast
qed

text \<open>
  C7, as the claim states it, fails: the model accepts the image and sends an empty list
  of treatments. \<^verbatim>\<open>part_001\<close> fills four lists and leaves \<^verbatim>\<open>treatments\<close> empty;
  \<^verbatim>\<open>src/geminiService.ts\<close> returns the reply as it is, with \<^verbatim>\<open>treatments\<close> empty and no
  \<^verbatim>\<open>precautions\<close>.
\<close>

theorem skin_record_without_treatments:
  "analyzeSkinImage_part_001 (replying bare_skin) ''abc''
     = Inr (JObj [(''isSkin'', JBool True), (''isHealthy'', JBool True),
                  (''diseaseName'', JStr ''Healthy Skin''),
                  (''treatments'', JArr [] []),
                  (''symptoms'', strings [''No critical symptoms detected.'',
                                          ''Standard skin texture observed.'']),
                  (''reasons'', strings [''Genetics'', ''Environmental factors'',
                                         ''Lifestyle choices'']),
                  (''precautions'', defaultAdvice),
                  (''prevention'', defaultAdvice)])
   \<and> analyzeSkinImage (replying bare_skin) ''abc'' = Inr bare_skin
   \<and> get bare_skin ''isSkin'' = Inr (JBool True)
   \<and> get bare_skin ''treatments'' = Inr (JArr [] [])
   \<and> get bare_skin ''precautions'' = Inr JUndefined"
  by (simp add: replying_part_001 replying_gemini reply_defs)

theorem part_001_backfills_four_lists_witness:
  "(\<exists>r. analyzeSkinImage_part_001 (replying bare_skin) ''abc'' = Inr r
        \<and> get r ''isSkin'' = Inr (JBool True)
        \<and> filled r ''precautions'' \<and> get r ''treatments'' = Inr (JArr [] []))
   \<and> on_result bare_skin = Inr bare_skin
   \<and> on_result_part_000 bare_skin = Inr bare_skin"
proof -
  have 1: "\<exists>r. analyzeSkinImage_part_001 (replying bare_skin) ''abc'' = Inr r
             \<and> on_result_part_001 bare_skin = Inr r
             \<and> get r ''isSkin'' = Inr (JBool True)"
    by (simp add: replying_part_001 reply_defs)
  have 2: "\<exists>r. on_result bare_skin = Inr r \<and> get r ''isSkin'' = Inr (JBool True)"
    by (simp add: reply_defs)
  have 3: "\<exists>r. on_result_part_000 bare_skin = Inr r \<and> get r ''isSkin'' = Inr (JBool True)"
    by (simp add: reply_defs)
  have 4: "get bare_skin ''treatments'' = Inr (JArr [] [])"
    by (simp add: reply_defs)
  from 1 2 3 4 show ?thesis
    using part_001_backfills_four_lists [of "replying bare_skin" "''abc''" _ bare_skin]
    by metis
qed

section \<open>analyzeSkinImage: a reply with five lists\<close>

lemma backfill_kept:
  "nonempty_list (lookup ps k) \<Longrightarrow> backfill k d (JObj ps) = Inr (JObj ps)"
  by (cases "lookup ps k") (auto simp: backfill_def bind_def optional_length_def nonempty_list_def)

lemma five_lists_object:
  assumes "five_lists result"
  obtains ps where "result = JObj ps"
    and "nonempty_list (lookup ps ''symptoms'')" and "nonempty_list (lookup ps ''reasons'')"
    and "nonempty_list (lookup ps ''precautions'')" and "nonempty_list (lookup ps ''prevention'')"
    and "nonempty_list (lookup ps ''treatments'')"
  using assms by (cases result) (auto simp: five_lists_def)

lemma nonempty_list_truthy: "nonempty_list v \<Longrightarrow> or_else v w = v"
  by (cases v) (auto simp: nonempty_list_def or_else_def)

lemma no_reasons_five:
  "nonempty_list (lookup ps ''reasons'') \<Longrightarrow> no_reasons (JObj ps) = Inr False"
  by (cases "lookup ps ''reasons''") (auto simp: no_reasons_def bind_def nonempty_list_def)

text \<open>The parsed reply has five non-empty lists and is not a rejection: nothing is changed.\<close>

lemma five_lists_kept:
  assumes "five_lists result" and "get result ''isSkin'' \<noteq> Inr (JBool False)"
  shows "on_result_part_001 result = Inr result" and "on_result_part_000 result = Inr result"
proof -
  from assms(1) obtain ps where ps: "result = JObj ps"
    and l: "nonempty_list (lookup ps ''symptoms'')" "nonempty_list (lookup ps ''reasons'')"
      "nonempty_list (lookup ps ''precautions'')" "nonempty_list (lookup ps ''prevention'')"
    by (rule five_lists_object)
  from assms(2) ps show "on_result_part_001 result = Inr result"
    by (simp add: on_result_part_001_def backfill_kept l bind_def)
  from assms(2) ps show "on_result_part_000 result = Inr result"
    by (simp add: on_result_part_000_def bind_def)
qed

text \<open>The parsed reply has five non-empty lists and is a rejection: what each file keeps.\<close>

lemma five_lists_rejected_part_001:
  assumes "five_lists result" and "get result ''isSkin'' = Inr (JBool False)"
  shows "\<exists>r. on_result_part_001 result = Inr r
           \<and> get r ''prevention'' = get result ''prevention''
           \<and> get r ''treatments'' = get result ''treatments''"
proof -
  from assms(1) obtain ps where ps: "result = JObj ps"
    and l: "nonempty_list (lookup ps ''symptoms'')" "nonempty_list (lookup ps ''reasons'')"
      "nonempty_list (lookup ps ''precautions'')" "nonempty_list (lookup ps ''prevention'')"
    by (rule five_lists_object)
  from assms(2) ps show ?thesis
    by (simp add: on_result_part_001_def backfill_kept l bind_def get_literal lookup_upd)
qed

lemma five_lists_rejected_part_000:
  assumes "five_lists result" and "get result ''isSkin'' = Inr (JBool False)"
  shows "\<exists>r. on_result_part_000 result = Inr r
           \<and> get r ''symptoms'' = get result ''symptoms''
           \<and> get r ''reasons'' = get result ''reasons''
           \<and> get r ''precautions'' = get result ''precautions''"
proof -
  from assms(1) obtain ps where ps: "result = JObj ps"
    and l: "nonempty_list (lookup ps ''symptoms'')" "nonempty_list (lookup ps ''reasons'')"
      "nonempty_list (lookup ps ''precautions'')"
    by (rule five_lists_object)
  from assms(2) ps show ?thesis
    by (simp add: on_result_part_000_def no_reasons_five l bind_def get_literal lookup_upd
        nonempty_list_truthy)
qed

text \<open>
  C8, amended. The key is configured, the cascade returns a body, and the body parses to a
  reply whose five lists are non-empty arrays. When \<^verbatim>\<open>isSkin\<close> of the reply is not
  \<^verbatim>\<open>false\<close>, \<^verbatim>\<open>part_001\<close> and \<^verbatim>\<open>part_000\<close> resolve to the reply itself: every list is
  unmodified. When it is \<^verbatim>\<open>false\<close>, \<^verbatim>\<open>part_001\<close> keeps \<^verbatim>\<open>prevention\<close> and \<^verbatim>\<open>treatments\<close>, and
  \<^verbatim>\<open>part_000\<close> keeps \<^verbatim>\<open>symptoms\<close>, \<^verbatim>\<open>reasons\<close> and \<^verbatim>\<open>precautions\<close>.
\<close>

theorem nonempty_lists_kept_unless_rejected:
  assumes "\<not> falsy (GROQ_API_KEY e)"
      and "parse_reply (JSON_parse e) data = Inr result"
      and "five_lists result"
  shows "(snd (tryGroqAnalysis_part_001 (fetch e (compressImage e base64Image 1024))) = Inr data
          \<and> get result ''isSkin'' \<noteq> Inr (JBool False) \<longrightarrow>
            analyzeSkinImage_part_001 e base64Image = Inr result)
       \<and> (snd (tryGroqAnalysis_part_000 (fetch e (compressImage e base64Image 1024))) = Inr data
          \<and> get result ''isSkin'' \<noteq> Inr (JBool False) \<longrightarrow>
            analyzeSkinImage_part_000 e base64Image = Inr result)
       \<and> (snd (tryGroqAnalysis_part_001 (fetch e (compressImage e base64Image 1024))) = Inr data
          \<and> get result ''isSkin'' = Inr (JBool False) \<longrightarrow>
            (\<exists>r. analyzeSkinImage_part_001 e base64Image = Inr r
               \<and> get r ''prevention'' = get result ''prevention''
               \<and> get r ''treatments'' = get result ''treatments''))
       \<and> (snd (tryGroqAnalysis_part_000 (fetch e (compressImage e base64Image 1024))) = Inr data
          \<and> get result ''isSkin'' = Inr (JBool False) \<longrightarrow>
            (\<exists>r. analyzeSkinImage_part_000 e base64Image = Inr r
               \<and> get r ''symptoms'' = get result ''symptoms''
               \<and> get r ''reasons'' = get result ''reasons''
               \<and> get r ''precautions'' = get result ''precautions''))"
proof -
  have p1: "analyzeSkinImage_part_001 e base64Image = Inr r"
    if "snd (tryGroqAnalysis_part_001 (fetch e (compressImage e base64Image 1024))) = Inr data"
      and "on_result_part_001 result = Inr r" for r
    using that assms(1,2)
    by (simp add: analyzeSkinImage_part_001_def try_analysis_part_001_def bind_def)
  have p0: "analyzeSkinImage_part_000 e base64Image = Inr r"
    if "snd (tryGroqAnalysis_part_000 (fetch e (compressImage e base64Image 1024))) = Inr data"
      and "on_result_part_000 result = Inr r" for r
    using that assms(1,2)
    by (simp add: analyzeSkinImage_part_000_def try_analysis_part_000_def bind_def)
  show ?thesis
    using p1 p0 five_lists_kept [OF assms(3)] five_lists_rejected_part_001 [OF assms(3)]
      five_lists_rejected_part_000 [OF assms(3)]
    by blast
qed

text \<open>
  C8, as the claim states it, fails: the reply has five non-empty lists and
  \<^verbatim>\<open>isSkin: false\<close>. \<^verbatim>\<open>part_001\<close> replaces \<^verbatim>\<open>symptoms\<close>, \<^verbatim>\<open>reasons\<close> and \<^verbatim>\<open>precautions\<close> with
  its fixed lists; \<^verbatim>\<open>part_000\<close> replaces \<^verbatim>\<open>prevention\<close> and \<^verbatim>\<open>treatments\<close> with empty lists.
\<close>

theorem rejection_replaces_lists:
  "five_lists wall
   \<and> get wall ''symptoms'' = Inr (strings [''Red wall paint''])
   \<and> get wall ''treatments'' = Inr (strings [''None needed''])
   \<and> analyzeSkinImage_part_001 (replying wall) ''abc''
       = Inr (JObj [(''isSkin'', JBool False), (''isHealthy'', JBool False),
                    (''diseaseName'', JStr ''No Skin Detected''),
                    (''symptoms'', strings [''Image blur'', ''Poor lighting'', ''Non-skin object'']),
                    (''reasons'', strings [''Camera not focused'', ''Object is too far'',
                                           ''Shadows obscuring details'']),
                    (''precautions'', strings [''Use natural lighting'', ''Hold camera steady'',
                                               ''Focus on the skin area'']),
                    (''prevention'', strings [''Keep the lens clean'']),
                    (''treatments'', strings [''None needed'']),
                    (''description'', JStr ''The AI could not clearly identify human skin. This may be due to lighting, blur, or the object not being skin.'')])
   \<and> analyzeSkinImage_part_000 (replying wall) ''abc''
       = Inr (JObj [(''isSkin'', JBool False), (''isHealthy'', JBool False),
                    (''diseaseName'', JStr ''Wall''),
                    (''symptoms'', strings [''Red wall paint'']),
                    (''reasons'', strings [''Not skin'']),
                    (''precautions'', strings [''Retake the photo'']),
                    (''prevention'', JArr [] []),
                    (''treatments'', JArr [] []),
                    (''description'', JStr ''The analysis could not identify human skin.''),
                    (''medicines'', JArr [] [])])"
  by (simp add: replying_part_001 replying_part_000 reply_defs five_lists_def nonempty_list_def)

theorem nonempty_lists_kept_unless_rejected_witness:
  "analyzeSkinImage_part_001 (replying eczema) ''abc'' = Inr eczema
   \<and> analyzeSkinImage_part_000 (replying eczema) ''abc'' = Inr eczema
   \<and> (\<exists>r. analyzeSkinImage_part_001 (replying wall) ''abc'' = Inr r
          \<and> get r ''treatments'' = Inr (strings [''None needed'']))
   \<and> (\<exists>r. analyzeSkinImage_part_000 (replying wall) ''abc'' = Inr r
          \<and> get r ''symptoms'' = Inr (strings [''Red wall paint'']))"
proof -
  have k: "\<not> falsy (GROQ_API_KEY (replying v))" for v
    by (simp add: replying_def)
  have p: "parse_reply (JSON_parse (replying v)) reply_body = Inr v" for v
    by (simp add: parse_reply_def reply_body_def replying_def bind_def lookup_def)
  have c1: "snd (tryGroqAnalysis_part_001
              (fetch (replying v) (compressImage (replying v) ''abc'' 1024))) = Inr reply_body" for v
    by (simp add: tryGroqAnalysis_part_001_def VISION_MODELS_part_001_def try_block_def ok_def
        json_reply_def replying_def reply_body_def)
  have c0: "snd (tryGroqAnalysis_part_000
              (fetch (replying v) (compressImage (replying v) ''abc'' 1024))) = Inr reply_body" for v
    by (simp add: tryGroqAnalysis_part_000_def VISION_MODELS_part_000_def try_block_def ok_def
        json_reply_def replying_def reply_body_def)
  have fe: "five_lists eczema" and fw: "five_lists wall"
    by (simp_all add: five_lists_def nonempty_list_def eczema_def wall_def strings_def lookup_def)
  have se: "get eczema ''isSkin'' \<noteq> Inr (JBool False)"
    and sw: "get wall ''isSkin'' = Inr (JBool False)"
    and tw: "get wall ''treatments'' = Inr (strings [''None needed''])"
    and yw: "get wall ''symptoms'' = Inr (strings [''Red wall paint''])"
    by (simp_all add: eczema_def wall_def lookup_def)
  have e: "analyzeSkinImage_part_001 (replying eczema) ''abc'' = Inr eczema
         \<and> analyzeSkinImage_part_000 (replying eczema) ''abc'' = Inr eczema"
    using nonempty_lists_kept_unless_rejected [OF k p fe, of "''abc''"] c1 c0 se
    by simp
  have w: "(\<exists>r. analyzeSkinImage_part_001 (replying wall) ''abc'' = Inr r
              \<and> get r ''treatments'' = get wall ''treatments'')
         \<and> (\<exists>r. analyzeSkinImage_part_000 (replying wall) ''abc'' = Inr r
              \<and> get r ''symptoms'' = get wall ''symptoms'')"
    using nonempty_lists_kept_unless_rejected [OF k p fw, of "''abc''"] c1 c0 sw
    by auto
  from e w show ?thesis
    by (simp add: tw yw)
qed

end
